theory Spec2Isabelle
  imports Complex_Main "HOL-Library.Sublist" "HOL-Library.Log_Nat"
begin

section \<open>Python strings\<close>

text \<open>
  A Python \<open>str\<close> is modelled as a \<open>string\<close> whose characters are the code points
  0..255 (Latin-1). On that range \<open>str.isspace\<close>, \<open>str.lower\<close> and \<open>str.isdigit\<close> act
  character by character, as written out below.
\<close>

definition isspace :: "char \<Rightarrow> bool" where
  "isspace c = (of_char c \<in> {9, 10, 11, 12, 13, 28, 29, 30, 31, 32, 133, 160 :: nat})"

definition isdigit :: "char \<Rightarrow> bool" where
  "isdigit c = (let n = (of_char c :: nat) in (48 \<le> n \<and> n \<le> 57) \<or> n \<in> {178, 179, 185})"

definition lower_char :: "char \<Rightarrow> char" where
  "lower_char c =
     (let n = (of_char c :: nat)
      in if (65 \<le> n \<and> n \<le> 90) \<or> (192 \<le> n \<and> n \<le> 222 \<and> n \<noteq> 215)
         then char_of (n + 32) else c)"

definition lower :: "string \<Rightarrow> string" where
  "lower s = map lower_char s"

definition strip :: "string \<Rightarrow> string" where
  "strip s = rev (dropWhile isspace (rev (dropWhile isspace s)))"

text \<open>\<open>s.split()\<close>: the maximal runs of non-whitespace characters, in order.\<close>

fun split_ws :: "string \<Rightarrow> string \<Rightarrow> string list" where
  "split_ws [] w = (if w = [] then [] else [rev w])"
| "split_ws (c # cs) w =
     (if isspace c then (if w = [] then split_ws cs [] else rev w # split_ws cs [])
      else split_ws cs (c # w))"

definition split :: "string \<Rightarrow> string list" where
  "split s = split_ws s []"

text \<open>\<open>sep.join(parts)\<close>.\<close>

fun join :: "string \<Rightarrow> string list \<Rightarrow> string" where
  "join sep [] = []"
| "join sep [p] = p"
| "join sep (p # q # ps) = p @ sep @ join sep (q # ps)"

text \<open>\<open>s.split('.')[-1]\<close>: what follows the last dot, the whole of \<open>s\<close> without one.\<close>

definition after_last_dot :: "string \<Rightarrow> string" where
  "after_last_dot s = rev (takeWhile (\<lambda>c. c \<noteq> CHR ''.'') (rev s))"

section \<open>JSON values and field validation\<close>

text \<open>
  What \<open>json.loads\<close> returns, and what \<open>BaseModel.dict()\<close> produces. A number written
  with a fraction or an exponent is a Python \<open>float\<close>, held here by its exact value.
\<close>

datatype json =
    JNull
  | JBool bool
  | JInt int
  | JFloat rat
  | JStr string
  | JList "json list"
  | JObj "(string \<times> json) list"

text \<open>
  A Python \<open>dict\<close> as an association list in insertion order. Where a key is repeated
  (\<open>json.loads\<close> on a repeated member) the last value stands.
\<close>

definition field :: "(string \<times> json) list \<Rightarrow> string \<Rightarrow> json option" where
  "field obj k = map_of (rev obj) k"

text \<open>\<open>d.get(k, default)\<close>.\<close>

definition get :: "(string \<times> json) list \<Rightarrow> string \<Rightarrow> json \<Rightarrow> json" where
  "get d k dflt = (case field d k of None \<Rightarrow> dflt | Some v \<Rightarrow> v)"

text \<open>
  The structural validation pydantic performs for the field types the schemas declare;
  \<open>Inl\<close> carries the diagnostic. A field declared \<open>str\<close> with no default is required and
  accepts only a string; \<open>Optional[str]\<close> and \<open>Optional[int]\<close> default to \<open>None\<close> and
  accept \<open>null\<close>; a \<open>List[...]\<close> field with \<open>default_factory=list\<close> defaults to the empty
  list and does not accept \<open>null\<close>. Validation runs in pydantic's lax mode: a string
  field takes a JSON string only, while an integer field also takes a boolean, a float
  without fractional part, and a string that pydantic reads as an integer. That reading
  of strings belongs to pydantic and is a parameter \<open>str_to_int\<close> of the model. Validation
  stops at the first offending field.
\<close>

definition req_str :: "(string \<times> json) list \<Rightarrow> string \<Rightarrow> string + string" where
  "req_str obj k =
     (case field obj k of
        None \<Rightarrow> Inl (k @ '': Field required'')
      | Some (JStr s) \<Rightarrow> Inr s
      | Some _ \<Rightarrow> Inl (k @ '': Input should be a valid string''))"

definition opt_str :: "(string \<times> json) list \<Rightarrow> string \<Rightarrow> string + string option" where
  "opt_str obj k =
     (case field obj k of
        None \<Rightarrow> Inr None
      | Some JNull \<Rightarrow> Inr None
      | Some (JStr s) \<Rightarrow> Inr (Some s)
      | Some _ \<Rightarrow> Inl (k @ '': Input should be a valid string''))"

definition as_int :: "(string \<Rightarrow> int option) \<Rightarrow> json \<Rightarrow> int option" where
  "as_int str_to_int j =
     (case j of
        JInt n \<Rightarrow> Some n
      | JBool b \<Rightarrow> Some (if b then 1 else 0)
      | JFloat q \<Rightarrow> (if of_int \<lfloor>q\<rfloor> = q then Some \<lfloor>q\<rfloor> else None)
      | JStr s \<Rightarrow> str_to_int s
      | _ \<Rightarrow> None)"

definition opt_int ::
  "(string \<Rightarrow> int option) \<Rightarrow> (string \<times> json) list \<Rightarrow> string \<Rightarrow> string + int option" where
  "opt_int str_to_int obj k =
     (case field obj k of
        None \<Rightarrow> Inr None
      | Some JNull \<Rightarrow> Inr None
      | Some v \<Rightarrow>
          (case as_int str_to_int v of
             Some n \<Rightarrow> Inr (Some n)
           | None \<Rightarrow> Inl (k @ '': Input should be a valid integer'')))"

fun validate_items :: "(json \<Rightarrow> string + 'a) \<Rightarrow> json list \<Rightarrow> string + 'a list" where
  "validate_items f [] = Inr []"
| "validate_items f (x # xs) =
     (case f x of
        Inl e \<Rightarrow> Inl e
      | Inr y \<Rightarrow> (case validate_items f xs of Inl e \<Rightarrow> Inl e | Inr ys \<Rightarrow> Inr (y # ys)))"

definition list_field ::
  "(json \<Rightarrow> string + 'a) \<Rightarrow> (string \<times> json) list \<Rightarrow> string \<Rightarrow> string + 'a list" where
  "list_field f obj k =
     (case field obj k of
        None \<Rightarrow> Inr []
      | Some (JList xs) \<Rightarrow> validate_items f xs
      | Some _ \<Rightarrow> Inl (k @ '': Input should be a valid list''))"

definition as_str :: "json \<Rightarrow> string + string" where
  "as_str j = (case j of JStr s \<Rightarrow> Inr s | _ \<Rightarrow> Inl ''Input should be a valid string'')"

definition str_list :: "(string \<times> json) list \<Rightarrow> string \<Rightarrow> string + string list" where
  "str_list obj k = list_field as_str obj k"

text \<open>
  \<open>Optional[EmailStr]\<close>: the address check belongs to the email-validator package and is
  a parameter \<open>email_ok\<close> of the model.
\<close>

definition opt_email ::
  "(string \<Rightarrow> bool) \<Rightarrow> (string \<times> json) list \<Rightarrow> string \<Rightarrow> string + string option" where
  "opt_email email_ok obj k =
     (case opt_str obj k of
        Inl e \<Rightarrow> Inl e
      | Inr None \<Rightarrow> Inr None
      | Inr (Some s) \<Rightarrow>
          (if email_ok s then Inr (Some s)
           else Inl (k @ '': value is not a valid email address'')))"

text \<open>Sequencing of fallible steps: the first \<open>Inl\<close> ends the chain, as a raise does.\<close>

definition and_then :: "'e + 'a \<Rightarrow> ('a \<Rightarrow> 'e + 'b) \<Rightarrow> 'e + 'b" where
  "and_then m f = (case m of Inl e \<Rightarrow> Inl e | Inr x \<Rightarrow> f x)"

definition json_opt_str :: "string option \<Rightarrow> json" where
  "json_opt_str v = (case v of None \<Rightarrow> JNull | Some s \<Rightarrow> JStr s)"

definition json_opt_int :: "int option \<Rightarrow> json" where
  "json_opt_int v = (case v of None \<Rightarrow> JNull | Some n \<Rightarrow> JInt n)"

definition json_str_list :: "string list \<Rightarrow> json" where
  "json_str_list xs = JList (map JStr xs)"

section \<open>schemas.py\<close>

subsection \<open>WorkExperience\<close>

record WorkExperience =
  we_company :: string
  we_position :: string
  we_location :: "string option"
  we_start_date :: string
  we_end_date :: string
  we_description :: "string option"
  we_achievements :: "string list"

text \<open>\<open>if not v: return 'Present'\<close>, on the string the type validation let through.\<close>

definition validate_end_date :: "string \<Rightarrow> string" where
  "validate_end_date v = (if v = [] then ''Present'' else v)"

definition WorkExperience_validate :: "json \<Rightarrow> string + WorkExperience" where
  "WorkExperience_validate j =
     (case j of
        JObj obj \<Rightarrow>
          and_then (req_str obj ''company'') (\<lambda>company.
          and_then (req_str obj ''position'') (\<lambda>position.
          and_then (opt_str obj ''location'') (\<lambda>location.
          and_then (req_str obj ''start_date'') (\<lambda>start_date.
          and_then (req_str obj ''end_date'') (\<lambda>end_date.
          and_then (opt_str obj ''description'') (\<lambda>description.
          and_then (str_list obj ''achievements'') (\<lambda>achievements.
          Inr \<lparr> we_company = company, we_position = position, we_location = location,
                we_start_date = start_date, we_end_date = validate_end_date end_date,
                we_description = description, we_achievements = achievements \<rparr>)))))))
      | _ \<Rightarrow> Inl ''Input should be a valid dictionary'')"

definition WorkExperience_dict :: "WorkExperience \<Rightarrow> json" where
  "WorkExperience_dict w =
     JObj [(''company'', JStr (we_company w)),
           (''position'', JStr (we_position w)),
           (''location'', json_opt_str (we_location w)),
           (''start_date'', JStr (we_start_date w)),
           (''end_date'', JStr (we_end_date w)),
           (''description'', json_opt_str (we_description w)),
           (''achievements'', json_str_list (we_achievements w))]"

subsection \<open>Education, Certification, Project\<close>

record Education =
  ed_institution :: string
  ed_degree :: string
  ed_field_of_study :: "string option"
  ed_location :: "string option"
  ed_start_date :: "string option"
  ed_end_date :: "string option"
  ed_gpa :: "string option"
  ed_honors :: "string list"

definition Education_validate :: "json \<Rightarrow> string + Education" where
  "Education_validate j =
     (case j of
        JObj obj \<Rightarrow>
          and_then (req_str obj ''institution'') (\<lambda>institution.
          and_then (req_str obj ''degree'') (\<lambda>degree.
          and_then (opt_str obj ''field_of_study'') (\<lambda>field_of_study.
          and_then (opt_str obj ''location'') (\<lambda>location.
          and_then (opt_str obj ''start_date'') (\<lambda>start_date.
          and_then (opt_str obj ''end_date'') (\<lambda>end_date.
          and_then (opt_str obj ''gpa'') (\<lambda>gpa.
          and_then (str_list obj ''honors'') (\<lambda>honors.
          Inr \<lparr> ed_institution = institution, ed_degree = degree,
                ed_field_of_study = field_of_study, ed_location = location,
                ed_start_date = start_date, ed_end_date = end_date, ed_gpa = gpa,
                ed_honors = honors \<rparr>))))))))
      | _ \<Rightarrow> Inl ''Input should be a valid dictionary'')"

definition Education_dict :: "Education \<Rightarrow> json" where
  "Education_dict e =
     JObj [(''institution'', JStr (ed_institution e)),
           (''degree'', JStr (ed_degree e)),
           (''field_of_study'', json_opt_str (ed_field_of_study e)),
           (''location'', json_opt_str (ed_location e)),
           (''start_date'', json_opt_str (ed_start_date e)),
           (''end_date'', json_opt_str (ed_end_date e)),
           (''gpa'', json_opt_str (ed_gpa e)),
           (''honors'', json_str_list (ed_honors e))]"

record Certification =
  ce_name :: string
  ce_issuing_organization :: "string option"
  ce_issue_date :: "string option"
  ce_expiry_date :: "string option"
  ce_credential_id :: "string option"

definition Certification_validate :: "json \<Rightarrow> string + Certification" where
  "Certification_validate j =
     (case j of
        JObj obj \<Rightarrow>
          and_then (req_str obj ''name'') (\<lambda>name.
          and_then (opt_str obj ''issuing_organization'') (\<lambda>issuing_organization.
          and_then (opt_str obj ''issue_date'') (\<lambda>issue_date.
          and_then (opt_str obj ''expiry_date'') (\<lambda>expiry_date.
          and_then (opt_str obj ''credential_id'') (\<lambda>credential_id.
          Inr \<lparr> ce_name = name, ce_issuing_organization = issuing_organization,
                ce_issue_date = issue_date, ce_expiry_date = expiry_date,
                ce_credential_id = credential_id \<rparr>)))))
      | _ \<Rightarrow> Inl ''Input should be a valid dictionary'')"

definition Certification_dict :: "Certification \<Rightarrow> json" where
  "Certification_dict c =
     JObj [(''name'', JStr (ce_name c)),
           (''issuing_organization'', json_opt_str (ce_issuing_organization c)),
           (''issue_date'', json_opt_str (ce_issue_date c)),
           (''expiry_date'', json_opt_str (ce_expiry_date c)),
           (''credential_id'', json_opt_str (ce_credential_id c))]"

record Project =
  pj_name :: string
  pj_description :: "string option"
  pj_technologies :: "string list"
  pj_url :: "string option"
  pj_date :: "string option"

definition Project_validate :: "json \<Rightarrow> string + Project" where
  "Project_validate j =
     (case j of
        JObj obj \<Rightarrow>
          and_then (req_str obj ''name'') (\<lambda>name.
          and_then (opt_str obj ''description'') (\<lambda>description.
          and_then (str_list obj ''technologies'') (\<lambda>technologies.
          and_then (opt_str obj ''url'') (\<lambda>url.
          and_then (opt_str obj ''date'') (\<lambda>date.
          Inr \<lparr> pj_name = name, pj_description = description,
                pj_technologies = technologies, pj_url = url, pj_date = date \<rparr>)))))
      | _ \<Rightarrow> Inl ''Input should be a valid dictionary'')"

definition Project_dict :: "Project \<Rightarrow> json" where
  "Project_dict p =
     JObj [(''name'', JStr (pj_name p)),
           (''description'', json_opt_str (pj_description p)),
           (''technologies'', json_str_list (pj_technologies p)),
           (''url'', json_opt_str (pj_url p)),
           (''date'', json_opt_str (pj_date p))]"

subsection \<open>ResumeParsedSchema (the rich variant)\<close>

record ResumeParsedSchema =
  r_name :: string
  r_email :: "string option"
  r_phone :: "string option"
  r_location :: "string option"
  r_linkedin :: "string option"
  r_github :: "string option"
  r_portfolio :: "string option"
  r_summary :: "string option"
  r_skills :: "string list"
  r_technical_skills :: "string list"
  r_soft_skills :: "string list"
  r_experience :: "WorkExperience list"
  r_total_experience_years :: "int option"
  r_education :: "Education list"
  r_highest_education :: "string option"
  r_certifications :: "Certification list"
  r_projects :: "Project list"
  r_languages :: "string list"
  r_awards :: "string list"
  r_publications :: "string list"
  r_volunteer_work :: "string list"

text \<open>\<open>clean_phone\<close>: a non-empty number keeps its digits only.\<close>

definition clean_phone :: "string option \<Rightarrow> string option" where
  "clean_phone v =
     (case v of
        None \<Rightarrow> None
      | Some s \<Rightarrow> if s \<noteq> [] then Some (filter isdigit s) else Some s)"

text \<open>
  \<open>clean_skills\<close>: the loop over \<open>v\<close> with its two accumulators, the set \<open>seen\<close> of
  lower-cased entries and the list \<open>cleaned\<close>.
\<close>

fun clean_loop :: "string list \<Rightarrow> string set \<Rightarrow> string list \<Rightarrow> string list" where
  "clean_loop [] seen cleaned = cleaned"
| "clean_loop (skill # v) seen cleaned =
     (let skill_clean = strip skill
      in if skill_clean \<noteq> [] \<and> lower skill_clean \<notin> seen
         then clean_loop v (insert (lower skill_clean) seen) (cleaned @ [skill_clean])
         else clean_loop v seen cleaned)"

definition clean_skills :: "string list \<Rightarrow> string list" where
  "clean_skills v = (if v \<noteq> [] then clean_loop v {} [] else [])"

definition ResumeParsedSchema_validate ::
  "(string \<Rightarrow> bool) \<Rightarrow> (string \<Rightarrow> int option) \<Rightarrow> json \<Rightarrow> string + ResumeParsedSchema" where
  "ResumeParsedSchema_validate email_ok str_to_int j =
     (case j of
        JObj obj \<Rightarrow>
          and_then (req_str obj ''name'') (\<lambda>name.
          and_then (opt_email email_ok obj ''email'') (\<lambda>email.
          and_then (opt_str obj ''phone'') (\<lambda>phone.
          and_then (opt_str obj ''location'') (\<lambda>location.
          and_then (opt_str obj ''linkedin'') (\<lambda>linkedin.
          and_then (opt_str obj ''github'') (\<lambda>github.
          and_then (opt_str obj ''portfolio'') (\<lambda>portfolio.
          and_then (opt_str obj ''summary'') (\<lambda>summary.
          and_then (str_list obj ''skills'') (\<lambda>skills.
          and_then (str_list obj ''technical_skills'') (\<lambda>technical_skills.
          and_then (str_list obj ''soft_skills'') (\<lambda>soft_skills.
          and_then (list_field WorkExperience_validate obj ''experience'') (\<lambda>experience.
          and_then (opt_int str_to_int obj ''total_experience_years'') (\<lambda>total_experience_years.
          and_then (list_field Education_validate obj ''education'') (\<lambda>education.
          and_then (opt_str obj ''highest_education'') (\<lambda>highest_education.
          and_then (list_field Certification_validate obj ''certifications'') (\<lambda>certifications.
          and_then (list_field Project_validate obj ''projects'') (\<lambda>projects.
          and_then (str_list obj ''languages'') (\<lambda>languages.
          and_then (str_list obj ''awards'') (\<lambda>awards.
          and_then (str_list obj ''publications'') (\<lambda>publications.
          and_then (str_list obj ''volunteer_work'') (\<lambda>volunteer_work.
          Inr \<lparr> r_name = name, r_email = email, r_phone = clean_phone phone,
                r_location = location, r_linkedin = linkedin, r_github = github,
                r_portfolio = portfolio, r_summary = summary,
                r_skills = clean_skills skills,
                r_technical_skills = clean_skills technical_skills,
                r_soft_skills = clean_skills soft_skills,
                r_experience = experience,
                r_total_experience_years = total_experience_years,
                r_education = education, r_highest_education = highest_education,
                r_certifications = certifications, r_projects = projects,
                r_languages = languages, r_awards = awards,
                r_publications = publications,
                r_volunteer_work = volunteer_work \<rparr>)))))))))))))))))))))
      | _ \<Rightarrow> Inl ''Input should be a valid dictionary'')"

definition ResumeParsedSchema_dict :: "ResumeParsedSchema \<Rightarrow> (string \<times> json) list" where
  "ResumeParsedSchema_dict r =
     [(''name'', JStr (r_name r)),
      (''email'', json_opt_str (r_email r)),
      (''phone'', json_opt_str (r_phone r)),
      (''location'', json_opt_str (r_location r)),
      (''linkedin'', json_opt_str (r_linkedin r)),
      (''github'', json_opt_str (r_github r)),
      (''portfolio'', json_opt_str (r_portfolio r)),
      (''summary'', json_opt_str (r_summary r)),
      (''skills'', json_str_list (r_skills r)),
      (''technical_skills'', json_str_list (r_technical_skills r)),
      (''soft_skills'', json_str_list (r_soft_skills r)),
      (''experience'', JList (map WorkExperience_dict (r_experience r))),
      (''total_experience_years'', json_opt_int (r_total_experience_years r)),
      (''education'', JList (map Education_dict (r_education r))),
      (''highest_education'', json_opt_str (r_highest_education r)),
      (''certifications'', JList (map Certification_dict (r_certifications r))),
      (''projects'', JList (map Project_dict (r_projects r))),
      (''languages'', json_str_list (r_languages r)),
      (''awards'', json_str_list (r_awards r)),
      (''publications'', json_str_list (r_publications r)),
      (''volunteer_work'', json_str_list (r_volunteer_work r))]"

subsection \<open>SimpleResumeParsedSchema (no field validator is declared on it)\<close>

record SimpleResumeParsedSchema =
  s_name :: string
  s_email :: "string option"
  s_phone :: "string option"
  s_location :: "string option"
  s_summary :: "string option"
  s_skills :: "string list"
  s_experience :: "string list"
  s_education :: "string list"
  s_total_experience_years :: "int option"

definition SimpleResumeParsedSchema_validate ::
  "(string \<Rightarrow> bool) \<Rightarrow> (string \<Rightarrow> int option) \<Rightarrow> json
     \<Rightarrow> string + SimpleResumeParsedSchema" where
  "SimpleResumeParsedSchema_validate email_ok str_to_int j =
     (case j of
        JObj obj \<Rightarrow>
          and_then (req_str obj ''name'') (\<lambda>name.
          and_then (opt_email email_ok obj ''email'') (\<lambda>email.
          and_then (opt_str obj ''phone'') (\<lambda>phone.
          and_then (opt_str obj ''location'') (\<lambda>location.
          and_then (opt_str obj ''summary'') (\<lambda>summary.
          and_then (str_list obj ''skills'') (\<lambda>skills.
          and_then (str_list obj ''experience'') (\<lambda>experience.
          and_then (str_list obj ''education'') (\<lambda>education.
          and_then (opt_int str_to_int obj ''total_experience_years'') (\<lambda>total_experience_years.
          Inr \<lparr> s_name = name, s_email = email, s_phone = phone, s_location = location,
                s_summary = summary, s_skills = skills, s_experience = experience,
                s_education = education,
                s_total_experience_years = total_experience_years \<rparr>)))))))))
      | _ \<Rightarrow> Inl ''Input should be a valid dictionary'')"

text \<open>\<open>.dict()\<close> lists every declared field, a field left at \<open>None\<close> included.\<close>

definition SimpleResumeParsedSchema_dict ::
  "SimpleResumeParsedSchema \<Rightarrow> (string \<times> json) list" where
  "SimpleResumeParsedSchema_dict s =
     [(''name'', JStr (s_name s)),
      (''email'', json_opt_str (s_email s)),
      (''phone'', json_opt_str (s_phone s)),
      (''location'', json_opt_str (s_location s)),
      (''summary'', json_opt_str (s_summary s)),
      (''skills'', json_str_list (s_skills s)),
      (''experience'', json_str_list (s_experience s)),
      (''education'', json_str_list (s_education s)),
      (''total_experience_years'', json_opt_int (s_total_experience_years s))]"

section \<open>Exceptions\<close>

text \<open>
  The exceptions the pipeline raises, by the kind of failure; \<open>message_of\<close> is \<open>str(e)\<close>.
  In the source they are \<open>ValueError\<close> and \<open>Exception\<close> objects told apart by their
  message, and whatever the model service or the database raises.
\<close>

datatype error =
    MissingCredential
  | UnsupportedFileType string
  | ExtractionFailure string
  | EmptyDocument
  | ModelServiceFailure string
  | SchemaValidationError string string
  | DatabaseError string

definition message_of :: "error \<Rightarrow> string" where
  "message_of e =
     (case e of
        MissingCredential \<Rightarrow>
          ''OpenAI API key not found. Please set GROQ_API_KEY in settings or .env''
      | UnsupportedFileType t \<Rightarrow> ''Unsupported file type: '' @ t
      | ExtractionFailure m \<Rightarrow> m
      | EmptyDocument \<Rightarrow> ''No text could be extracted from the resume''
      | ModelServiceFailure m \<Rightarrow> m
      | SchemaValidationError diag excerpt \<Rightarrow>
          ''Error parsing LLM response: '' @ diag @ [CHR 0x0A, CHR 0x0A] @ ''Response: '' @ excerpt
      | DatabaseError m \<Rightarrow> m)"

section \<open>models.py\<close>

record User =
  user_id :: nat
  first_name :: string
  last_name :: string
  email :: string
  role :: string

datatype status = Pending | Processing | Completed | Failed

text \<open>
  \<open>ParsedResume\<close>. The related \<open>user\<close> object is carried in the record; \<open>skills\<close> holds
  the list of strings the processing stores there. The table is kept in the order of
  \<open>Meta.ordering = ['-created_at']\<close>, newest row first.
\<close>

record ParsedResume =
  pr_id :: nat
  pr_user :: User
  pr_file_path :: string
  pr_original_filename :: string
  pr_parsed_data :: "(string \<times> json) list"
  pr_skills :: "string list"
  pr_experience_years :: "int option"
  pr_education_level :: "string option"
  pr_status :: status
  pr_error_message :: "string option"

definition file_extension :: "ParsedResume \<Rightarrow> string" where
  "file_extension r =
     (if pr_original_filename r \<noteq> [] then lower (after_last_dot (pr_original_filename r))
      else [])"

definition is_completed :: "ParsedResume \<Rightarrow> bool" where
  "is_completed r = (pr_status r = Completed)"

definition skill_count :: "ParsedResume \<Rightarrow> nat" where
  "skill_count r = (if pr_skills r \<noteq> [] then length (pr_skills r) else 0)"

record ProfileCompletion =
  pc_user :: nat
  pc_completion_score :: int
  pc_missing_fields :: "string list"
  pc_suggestions :: "string list"
  pc_last_calculated :: nat

text \<open>Of \<open>Job\<close>, the columns the application flow reads or writes.\<close>

record Job =
  j_id :: nat
  j_slug :: string
  j_required_skills :: "string list"
  j_applications_count :: int

record JobApplication =
  ja_id :: nat
  ja_job :: nat
  ja_applicant :: nat
  ja_resume :: "nat option"
  ja_cover_letter :: string
  ja_status :: string
  ja_match_score :: "rat option"
  ja_matching_skills :: "string list"
  ja_missing_skills :: "string list"

section \<open>The collaborators outside the repository\<close>

datatype write_op =
    WResume ParsedResume
  | WUser User
  | WCompletion ProfileCompletion
  | WJob Job
  | WApplication JobApplication

record ChatGroq =
  llm_model :: string
  llm_temperature :: int
  llm_api_key :: string

text \<open>
  The services the code calls, as parameters: the Django setting, the two document
  readers (\<open>Inl\<close> is the description of the exception raised while reading, \<open>Inr\<close> the
  text of each page or paragraph), the output parser's format instructions for the
  simple (\<open>True\<close>) and the rich schema, the model service (\<open>Inl\<close> its failure), the output
  parser's JSON decoding of the response text, the address check, pydantic's reading of
  a string as an integer, and the database, which may refuse a write with an error.
\<close>

record env =
  GROQ_API_KEY :: "string option"
  read_pdf :: "string \<Rightarrow> string + string list"
  read_docx :: "string \<Rightarrow> string + string list"
  get_format_instructions :: "bool \<Rightarrow> string"
  llm_invoke :: "ChatGroq \<Rightarrow> (string \<times> string) list \<Rightarrow> string + string"
  parse_json :: "string \<Rightarrow> string + json"
  email_ok :: "string \<Rightarrow> bool"
  str_to_int :: "string \<Rightarrow> int option"
  db_error :: "write_op \<Rightarrow> string option"

text \<open>
  The state the code acts on: how many files were opened and how many calls went to
  the model service, the database clock and tables, and the log of the writes that
  the database accepted, oldest first.
\<close>

record world =
  file_reads :: nat
  model_calls :: nat
  clock :: nat
  resume_rows :: "ParsedResume list"
  user_rows :: "User list"
  completion_rows :: "ProfileCompletion list"
  job_rows :: "Job list"
  application_rows :: "JobApplication list"
  write_log :: "write_op list"

text \<open>A row is replaced where its key is found, and added in front otherwise.\<close>

definition put_row :: "('a \<Rightarrow> nat) \<Rightarrow> 'a \<Rightarrow> 'a list \<Rightarrow> 'a list" where
  "put_row key x rows =
     (if key x \<in> set (map key rows) then map (\<lambda>r. if key r = key x then x else r) rows
      else x # rows)"

definition fresh_id :: "('a \<Rightarrow> nat) \<Rightarrow> 'a list \<Rightarrow> nat" where
  "fresh_id key rows = Suc (foldr max (map key rows) 0)"

definition apply_write :: "write_op \<Rightarrow> world \<Rightarrow> world" where
  "apply_write wr w =
     (let w' = w\<lparr> clock := Suc (clock w), write_log := write_log w @ [wr] \<rparr>
      in case wr of
           WResume r \<Rightarrow> w'\<lparr> resume_rows := put_row pr_id r (resume_rows w) \<rparr>
         | WUser u \<Rightarrow> w'\<lparr> user_rows := put_row user_id u (user_rows w) \<rparr>
         | WCompletion c \<Rightarrow> w'\<lparr> completion_rows := put_row pc_user c (completion_rows w) \<rparr>
         | WJob j \<Rightarrow> w'\<lparr> job_rows := put_row j_id j (job_rows w) \<rparr>
         | WApplication a \<Rightarrow> w'\<lparr> application_rows := put_row ja_id a (application_rows w) \<rparr>)"

text \<open>\<open>save()\<close>, \<open>create()\<close> and \<open>update_or_create()\<close> end in one write, which may raise.\<close>

definition db_write :: "env \<Rightarrow> write_op \<Rightarrow> world \<Rightarrow> (error + unit) \<times> world" where
  "db_write env wr w =
     (case db_error env wr of
        Some m \<Rightarrow> (Inl (DatabaseError m), w)
      | None \<Rightarrow> (Inr (), apply_write wr w))"

section \<open>services/resume\_parser.py\<close>

record ResumeParser =
  api_key :: string
  llm :: ChatGroq

text \<open>\<open>a or b\<close> on optional strings: \<open>a\<close> when it is a non-empty string, else \<open>b\<close>.\<close>

definition py_or :: "string option \<Rightarrow> string option \<Rightarrow> string option" where
  "py_or a b = (case a of Some s \<Rightarrow> (if s \<noteq> [] then a else b) | None \<Rightarrow> b)"

definition ResumeParser_init :: "env \<Rightarrow> string option \<Rightarrow> error + ResumeParser" where
  "ResumeParser_init env api_key_arg =
     (case py_or api_key_arg (GROQ_API_KEY env) of
        None \<Rightarrow> Inl MissingCredential
      | Some k \<Rightarrow>
          if k = [] then Inl MissingCredential
          else Inr \<lparr> api_key = k,
                     llm = \<lparr> llm_model = ''llama-3.1-8b-instant'', llm_temperature = 0,
                             llm_api_key = k \<rparr> \<rparr>)"

definition extract_text_from_pdf :: "env \<Rightarrow> string \<Rightarrow> world \<Rightarrow> (error + string) \<times> world" where
  "extract_text_from_pdf env file_path w =
     (let w' = w\<lparr> file_reads := Suc (file_reads w) \<rparr>
      in case read_pdf env file_path of
           Inl cause \<Rightarrow> (Inl (ExtractionFailure (''Error reading PDF: '' @ cause)), w')
         | Inr pages \<Rightarrow> (Inr (strip (concat (map (\<lambda>page. page @ [CHR 0x0A]) pages))), w'))"

definition extract_text_from_docx :: "env \<Rightarrow> string \<Rightarrow> world \<Rightarrow> (error + string) \<times> world" where
  "extract_text_from_docx env file_path w =
     (let w' = w\<lparr> file_reads := Suc (file_reads w) \<rparr>
      in case read_docx env file_path of
           Inl cause \<Rightarrow> (Inl (ExtractionFailure (''Error reading DOCX: '' @ cause)), w')
         | Inr paragraphs \<Rightarrow> (Inr (strip (join [CHR 0x0A] paragraphs)), w'))"

definition extract_text :: "env \<Rightarrow> string \<Rightarrow> string \<Rightarrow> world \<Rightarrow> (error + string) \<times> world" where
  "extract_text env file_path file_type w =
     (if lower file_type = ''pdf'' then extract_text_from_pdf env file_path w
      else if lower file_type \<in> set [''docx'', ''doc''] then extract_text_from_docx env file_path w
      else (Inl (UnsupportedFileType file_type), w))"

text \<open>The two prompt turns, with the format instructions and the resume text filled in.\<close>

definition system_rules :: "string list" where
  "system_rules =
     [''You are an expert resume parser.'',
      [],
      ''            Extract information EXACTLY according to the provided schema.'',
      [],
      ''            Rules:'',
      ''            - Output ONLY valid JSON that conforms to the schema'',
      ''            - Do NOT include explanations, markdown, or additional text'',
      ''            - Do NOT infer or calculate values'',
      ''            - If information is missing, use null or empty arrays'',
      ''            - Preserve original wording and date formats exactly as written'',
      ''            - Extract skills from both the skills section and experience descriptions'',
      []]"

definition format_messages :: "string \<Rightarrow> string \<Rightarrow> (string \<times> string) list" where
  "format_messages format_instructions resume_text =
     [(''system'',
       join [CHR 0x0A] (system_rules @ [''            '' @ format_instructions, ''            ''])),
      (''user'', ''Parse the following resume text:'' @ [CHR 0x0A, CHR 0x0A] @ resume_text)]"

text \<open>
  \<open>parser.parse(response.content)\<close> followed by \<open>.dict()\<close>, inside the \<open>try\<close> that
  rewraps any failure with the first 500 characters of the response.
\<close>

definition parse_response :: "env \<Rightarrow> bool \<Rightarrow> string \<Rightarrow> error + (string \<times> json) list" where
  "parse_response env use_simple content =
     (case and_then (parse_json env content) (\<lambda>j.
             if use_simple
             then and_then (SimpleResumeParsedSchema_validate (email_ok env) (str_to_int env) j)
                    (\<lambda>s. Inr (SimpleResumeParsedSchema_dict s))
             else and_then (ResumeParsedSchema_validate (email_ok env) (str_to_int env) j)
                    (\<lambda>r. Inr (ResumeParsedSchema_dict r))) of
        Inl diag \<Rightarrow> Inl (SchemaValidationError diag (take 500 content))
      | Inr d \<Rightarrow> Inr d)"

definition parse_resume ::
  "env \<Rightarrow> ResumeParser \<Rightarrow> string \<Rightarrow> string \<Rightarrow> bool \<Rightarrow> world
     \<Rightarrow> (error + (string \<times> json) list) \<times> world" where
  "parse_resume env self file_path file_type use_simple w =
     (case extract_text env file_path file_type w of
        (Inl e, w1) \<Rightarrow> (Inl e, w1)
      | (Inr resume_text, w1) \<Rightarrow>
          (if strip resume_text = [] then (Inl EmptyDocument, w1)
           else
             (let formatted_prompt =
                    format_messages (get_format_instructions env use_simple) resume_text;
                  w2 = w1\<lparr> model_calls := Suc (model_calls w1) \<rparr>
              in (case llm_invoke env (llm self) formatted_prompt of
                    Inl m \<Rightarrow> (Inl (ModelServiceFailure m), w2)
                  | Inr content \<Rightarrow> (parse_response env use_simple content, w2)))))"

section \<open>views.py: the resume record lifecycle\<close>

text \<open>Python truth of a JSON value, as \<open>if x:\<close> tests it.\<close>

definition truthy :: "json \<Rightarrow> bool" where
  "truthy j =
     (case j of
        JNull \<Rightarrow> False
      | JBool b \<Rightarrow> b
      | JInt n \<Rightarrow> n \<noteq> 0
      | JFloat q \<Rightarrow> q \<noteq> 0
      | JStr s \<Rightarrow> s \<noteq> []
      | JList xs \<Rightarrow> xs \<noteq> []
      | JObj kvs \<Rightarrow> kvs \<noteq> [])"

text \<open>
  The values \<open>_process_resume\<close> copies out of the parsed dictionary, read at the column
  types of \<open>ParsedResume\<close>: a list of strings, and an integer or \<open>None\<close>.
\<close>

definition strings_of :: "json \<Rightarrow> string list" where
  "strings_of j =
     (case j of
        JList xs \<Rightarrow> concat (map (\<lambda>x. case x of JStr s \<Rightarrow> [s] | _ \<Rightarrow> []) xs)
      | _ \<Rightarrow> [])"

definition int_of :: "json \<Rightarrow> int option" where
  "int_of j = (case j of JInt n \<Rightarrow> Some n | _ \<Rightarrow> None)"

definition update_user_profile ::
  "env \<Rightarrow> User \<Rightarrow> (string \<times> json) list \<Rightarrow> world \<Rightarrow> (error + unit) \<times> User \<times> world" where
  "update_user_profile env user resume_data w =
     (case get resume_data ''name'' JNull of
        JStr name \<Rightarrow>
          if name \<noteq> [] \<and> \<not> (first_name user \<noteq> [] \<or> last_name user \<noteq> []) then
            (case split name of
               [] \<Rightarrow> (Inr (), user, w)
             | p # ps \<Rightarrow>
                 let user' = user\<lparr> first_name := p,
                                   last_name := (if 1 < length (p # ps) then join '' '' ps else []) \<rparr>
                 in (case db_write env (WUser user') w of (r, w') \<Rightarrow> (r, user', w')))
          else (Inr (), user, w)
      | _ \<Rightarrow> (Inr (), user, w))"

text \<open>\<open>.first()\<close> of a query: its first row, or \<open>None\<close>.\<close>

definition first :: "'a list \<Rightarrow> 'a option" where
  "first rows = (case rows of [] \<Rightarrow> None | r # _ \<Rightarrow> Some r)"

text \<open>\<open>user.resumes.filter(status='completed')\<close>, in the table's order.\<close>

definition completed_resumes :: "User \<Rightarrow> world \<Rightarrow> ParsedResume list" where
  "completed_resumes user w =
     filter (\<lambda>r. user_id (pr_user r) = user_id user \<and> pr_status r = Completed) (resume_rows w)"

text \<open>
  The body of \<open>_calculate_profile_completion\<close> up to the database call: the values of
  \<open>score\<close>, \<open>missing\<close> and \<open>suggestions\<close> it arrives at.
\<close>

definition completion_fields :: "User \<Rightarrow> world \<Rightarrow> int \<times> string list \<times> string list" where
  "completion_fields user w =
     (let score = 0; missing = []; suggestions = [];
          (score, missing, suggestions) =
            (if first_name user \<noteq> [] \<and> last_name user \<noteq> []
             then (score + 20, missing, suggestions)
             else (score, missing @ [''name''], suggestions @ [''Complete your name'']));
          (score, missing, suggestions) =
            (if email user \<noteq> []
             then (score + 20, missing, suggestions)
             else (score, missing @ [''email''], suggestions @ [''Add your email address'']));
          has_resume = (completed_resumes user w \<noteq> []);
          (score, missing, suggestions) =
            (if has_resume
             then
               (let score = score + 30;
                    latest_resume = first (completed_resumes user w)
                in if (case latest_resume of None \<Rightarrow> False | Some r \<Rightarrow> 0 < skill_count r)
                   then (score + 15, missing, suggestions)
                   else (score, missing, suggestions @ [''Add more skills to your resume'']))
             else (score, missing @ [''resume''],
                   suggestions @ [''Upload your resume to boost your profile'']));
          (score, missing, suggestions) =
            (if role user \<noteq> []
             then (score + 15, missing, suggestions)
             else (score, missing @ [''role''],
                   suggestions @ [''Select your role (Candidate/Recruiter)'']))
      in (score, missing, suggestions))"

definition calculate_profile_completion :: "env \<Rightarrow> User \<Rightarrow> world \<Rightarrow> (error + unit) \<times> world" where
  "calculate_profile_completion env user w =
     (case completion_fields user w of
        (score, missing, suggestions) \<Rightarrow>
          db_write env
            (WCompletion \<lparr> pc_user = user_id user, pc_completion_score = score,
                           pc_missing_fields = missing, pc_suggestions = suggestions,
                           pc_last_calculated = clock w \<rparr>) w)"

text \<open>The \<open>ProfileCompletion\<close> row of a user, if there is one.\<close>

definition completion_of :: "User \<Rightarrow> world \<Rightarrow> ProfileCompletion option" where
  "completion_of user w = find (\<lambda>c. pc_user c = user_id user) (completion_rows w)"

text \<open>
  \<open>_process_resume\<close>: first the body of its \<open>try\<close>, returning the record object as the
  body left it, then the function with its \<open>except Exception\<close> handler, which re-raises.
\<close>

definition process_resume_try ::
  "env \<Rightarrow> ParsedResume \<Rightarrow> world \<Rightarrow> (error + unit) \<times> ParsedResume \<times> world" where
  "process_resume_try env parsed_resume w =
     (let pr1 = parsed_resume\<lparr> pr_status := Processing \<rparr>
      in case db_write env (WResume pr1) w of
           (Inl e, w1) \<Rightarrow> (Inl e, pr1, w1)
         | (Inr _, w1) \<Rightarrow>
             (case ResumeParser_init env None of
                Inl e \<Rightarrow> (Inl e, pr1, w1)
              | Inr parser \<Rightarrow>
                  (case parse_resume env parser (pr_file_path pr1) (file_extension pr1) True w1 of
                     (Inl e, w2) \<Rightarrow> (Inl e, pr1, w2)
                   | (Inr resume_data, w2) \<Rightarrow>
                       let pr2 = pr1\<lparr> pr_parsed_data := resume_data,
                                       pr_skills := strings_of (get resume_data ''skills'' (JList [])),
                                       pr_experience_years :=
                                         int_of (get resume_data ''total_experience_years'' (JInt 0)) \<rparr>;
                           education = get resume_data ''education'' (JList []);
                           pr3 = (case education of
                                    JList (entry # _) \<Rightarrow>
                                      pr2\<lparr> pr_education_level :=
                                             Some (case entry of JStr s \<Rightarrow> s | _ \<Rightarrow> ''Not specified'') \<rparr>
                                  | _ \<Rightarrow> pr2);
                           pr4 = pr3\<lparr> pr_status := Completed \<rparr>
                       in (case db_write env (WResume pr4) w2 of
                             (Inl e, w3) \<Rightarrow> (Inl e, pr4, w3)
                           | (Inr _, w3) \<Rightarrow>
                               (case update_user_profile env (pr_user pr4) resume_data w3 of
                                  (Inl e, user', w4) \<Rightarrow> (Inl e, pr4\<lparr> pr_user := user' \<rparr>, w4)
                                | (Inr _, user', w4) \<Rightarrow>
                                    (case calculate_profile_completion env user' w4 of
                                       (Inl e, w5) \<Rightarrow> (Inl e, pr4\<lparr> pr_user := user' \<rparr>, w5)
                                     | (Inr _, w5) \<Rightarrow>
                                         (Inr (), pr4\<lparr> pr_user := user' \<rparr>, w5)))))))"

definition process_resume ::
  "env \<Rightarrow> ParsedResume \<Rightarrow> world \<Rightarrow> (error + unit) \<times> ParsedResume \<times> world" where
  "process_resume env parsed_resume w =
     (case process_resume_try env parsed_resume w of
        (Inr _, pr, w') \<Rightarrow> (Inr (), pr, w')
      | (Inl e, pr, w') \<Rightarrow>
          let pr' = pr\<lparr> pr_status := Failed, pr_error_message := Some (message_of e) \<rparr>
          in (case db_write env (WResume pr') w' of
                (Inl e', w'') \<Rightarrow> (Inl e', pr', w'')
              | (Inr _, w'') \<Rightarrow> (Inl e, pr', w'')))"

text \<open>The statuses a record was saved with, oldest first.\<close>

definition saved_statuses :: "nat \<Rightarrow> world \<Rightarrow> status list" where
  "saved_statuses rid w =
     concat (map (\<lambda>wr. case wr of
                          WResume r \<Rightarrow> (if pr_id r = rid then [pr_status r] else [])
                        | _ \<Rightarrow> [])
                 (write_log w))"

section \<open>views.py: applying for a job\<close>

subsection \<open>Python floats\<close>

text \<open>
  A \<open>float\<close> is a binary64 number, modelled by its exact rational value. \<open>binary64 q\<close>
  is the double nearest to \<open>q \<ge> 0\<close>, ties to the even significand; the exponent range
  is left unbounded, which changes nothing for the values a score takes. True division
  of two integers, multiplication and \<open>round(x, 2)\<close> are each correctly rounded, the
  last through the decimal nearest to the exact value of \<open>x\<close>, ties to even.
\<close>

definition round_half_even :: "rat \<Rightarrow> int" where
  "round_half_even q =
     (let f = \<lfloor>q\<rfloor>; r = q - of_int f
      in if r < 1 / 2 then f else if 1 / 2 < r then f + 1 else if even f then f else f + 1)"

definition floor_log2 :: "rat \<Rightarrow> int" where
  "floor_log2 q =
     (case quotient_of q of
        (a, b) \<Rightarrow> let k = bitlen a - bitlen b in if 2 powi k \<le> q then k else k - 1)"

definition binary64 :: "rat \<Rightarrow> rat" where
  "binary64 q =
     (if q \<le> 0 then 0
      else let e = floor_log2 q - 52
           in of_int (round_half_even (q / 2 powi e)) * 2 powi e)"

definition float_div :: "nat \<Rightarrow> nat \<Rightarrow> rat" where
  "float_div a b = binary64 (of_nat a / of_nat b)"

definition float_mul :: "rat \<Rightarrow> rat \<Rightarrow> rat" where
  "float_mul x y = binary64 (x * y)"

definition round2 :: "rat \<Rightarrow> rat" where
  "round2 x = binary64 (of_int (round_half_even (x * 100)) / 100)"

subsection \<open>The view\<close>

text \<open>
  Of the request: the logged-in user, the method, and the two form fields, \<open>None\<close> when
  the form does not send them. A response is a redirect with the level of the message
  flashed, a rendered template, or the 404 of \<open>get_object_or_404\<close>.
\<close>

record request =
  req_user :: User
  req_method :: string
  req_cover_letter :: "string option"
  req_resume_id :: "nat option"

datatype response = Redirect string string | Render string | Http404

text \<open>
  \<open>list(set(a) & set(b))\<close> and \<open>list(set(a) - set(b))\<close>. Python leaves the order of
  the resulting list open; the model lists the elements in the order of their first
  occurrence in \<open>a\<close>.
\<close>

definition set_and :: "string list \<Rightarrow> string list \<Rightarrow> string list" where
  "set_and a b = filter (\<lambda>x. x \<in> set b) (remdups a)"

definition set_minus :: "string list \<Rightarrow> string list \<Rightarrow> string list" where
  "set_minus a b = filter (\<lambda>x. x \<notin> set b) (remdups a)"

text \<open>The block under \<open>if resume and resume.skills\<close>: the three values it stores.\<close>

definition match_data :: "string list \<Rightarrow> string list \<Rightarrow> rat \<times> string list \<times> string list" where
  "match_data skills required_skills =
     (let matching_skills = set_and skills required_skills;
          missing_skills = set_minus required_skills skills;
          match_score =
            (if required_skills \<noteq> []
             then float_mul (float_div (length matching_skills) (length required_skills)) 100
             else 0)
      in (round2 match_score, matching_skills, missing_skills))"

text \<open>
  The row \<open>get_object_or_404(ParsedResume, id=resume_id, user=request.user,
  status='completed')\<close> returns, \<open>None\<close> where it raises the 404.
\<close>

definition completed_resume_of :: "nat \<Rightarrow> User \<Rightarrow> world \<Rightarrow> ParsedResume option" where
  "completed_resume_of resume_id user w =
     find (\<lambda>r. pr_id r = resume_id \<and> user_id (pr_user r) = user_id user
                \<and> pr_status r = Completed) (resume_rows w)"

text \<open>
  The block under \<open>if resume and resume.skills\<close>, with its \<open>application.save()\<close>;
  nothing is done when no resume was selected or its skill list is empty.
\<close>

definition store_match ::
  "env \<Rightarrow> JobApplication \<Rightarrow> ParsedResume option \<Rightarrow> Job \<Rightarrow> world \<Rightarrow> (error + unit) \<times> world" where
  "store_match env application resume job w =
     (case resume of
        None \<Rightarrow> (Inr (), w)
      | Some r \<Rightarrow>
          if pr_skills r \<noteq> [] then
            (case match_data (pr_skills r) (j_required_skills job) of
               (match_score, matching_skills, missing_skills) \<Rightarrow>
                 db_write env
                   (WApplication
                      (application\<lparr> ja_match_score := Some match_score,
                                    ja_matching_skills := matching_skills,
                                    ja_missing_skills := missing_skills \<rparr>)) w)
          else (Inr (), w))"

text \<open>
  The \<open>POST\<close> branch from \<open>JobApplication.objects.create\<close> on: the application is
  created with the model's defaults for the match columns, the match data is stored,
  the job's counter is incremented, and the user is sent to the list of applications.
  An exception of the database leaves the view at the write that raised it.
\<close>

definition submit_application ::
  "env \<Rightarrow> request \<Rightarrow> Job \<Rightarrow> ParsedResume option \<Rightarrow> world \<Rightarrow> (error + response) \<times> world" where
  "submit_application env request job resume w =
     (let cover_letter = (case req_cover_letter request of None \<Rightarrow> [] | Some c \<Rightarrow> c);
          application =
            \<lparr> ja_id = fresh_id ja_id (application_rows w), ja_job = j_id job,
              ja_applicant = user_id (req_user request),
              ja_resume = map_option pr_id resume,
              ja_cover_letter = cover_letter, ja_status = ''pending'',
              ja_match_score = None, ja_matching_skills = [],
              ja_missing_skills = [] \<rparr>
      in (case db_write env (WApplication application) w of
            (Inl e, w1) \<Rightarrow> (Inl e, w1)
          | (Inr _, w1) \<Rightarrow>
              (case store_match env application resume job w1 of
                 (Inl e, w2) \<Rightarrow> (Inl e, w2)
               | (Inr _, w2) \<Rightarrow>
                   (case db_write env
                           (WJob (job\<lparr> j_applications_count := j_applications_count job + 1 \<rparr>))
                           w2 of
                      (Inl e, w3) \<Rightarrow> (Inl e, w3)
                    | (Inr _, w3) \<Rightarrow>
                        (Inr (Redirect ''resumes:my_applications'' ''success''), w3)))))"

definition apply_job :: "env \<Rightarrow> request \<Rightarrow> string \<Rightarrow> world \<Rightarrow> (error + response) \<times> world" where
  "apply_job env request slug w =
     (case find (\<lambda>j. j_slug j = slug) (job_rows w) of
        None \<Rightarrow> (Inr Http404, w)
      | Some job \<Rightarrow>
          if role (req_user request) \<noteq> ''candidate''
          then (Inr (Redirect ''resumes:job_detail'' ''error''), w)
          else if \<exists>a \<in> set (application_rows w).
                    ja_job a = j_id job \<and> ja_applicant a = user_id (req_user request)
          then (Inr (Redirect ''resumes:job_detail'' ''warning''), w)
          else if req_method request = ''POST'' then
            (case req_resume_id request of
               None \<Rightarrow> submit_application env request job None w
             | Some resume_id \<Rightarrow>
                 (case completed_resume_of resume_id (req_user request) w of
                    None \<Rightarrow> (Inr Http404, w)
                  | Some r \<Rightarrow> submit_application env request job (Some r) w))
          else (Inr (Render ''resumes/apply_job.html''), w))"

text \<open>The application a user has on record for a job, if any.\<close>

definition application_of :: "nat \<Rightarrow> nat \<Rightarrow> world \<Rightarrow> JobApplication option" where
  "application_of job_id applicant w =
     find (\<lambda>a. ja_job a = job_id \<and> ja_applicant a = applicant) (application_rows w)"

text \<open>The values of the match columns that a submission leaves in the new row.\<close>

definition stored_match ::
  "ParsedResume option \<Rightarrow> Job \<Rightarrow> rat option \<times> string list \<times> string list" where
  "stored_match resume job =
     (case resume of
        None \<Rightarrow> (None, [], [])
      | Some r \<Rightarrow>
          if pr_skills r \<noteq> []
          then (Some (fst (match_data (pr_skills r) (j_required_skills job))),
                fst (snd (match_data (pr_skills r) (j_required_skills job))),
                snd (snd (match_data (pr_skills r) (j_required_skills job))))
          else (None, [], []))"

section \<open>What the specification asks of a cleaned skill list\<close>

text \<open>
  Deduplication in the specification's words, case-insensitive, in first-seen order and
  in the casing of the first occurrence: the first entry is kept as it is written, every
  later entry equal to it under case-insensitive comparison is dropped, and so on
  through what is left.
\<close>

fun first_seen :: "string list \<Rightarrow> string list" where
  "first_seen [] = []"
| "first_seen (x # xs) = x # first_seen (filter (\<lambda>y. lower y \<noteq> lower x) xs)"

text \<open>
  A list \<open>out\<close> is the cleaned form of \<open>raw\<close> when every entry of it is trimmed and none
  is empty, no two entries are equal under case-insensitive comparison, and it is the
  deduplication of the trimmed, non-empty entries of \<open>raw\<close>.
\<close>

definition skills_cleaned :: "string list \<Rightarrow> string list \<Rightarrow> bool" where
  "skills_cleaned raw out \<longleftrightarrow>
     (\<forall>s \<in> set out. s \<noteq> [] \<and> strip s = s)
   \<and> distinct (map lower out)
   \<and> out = first_seen (filter (\<lambda>s. s \<noteq> []) (map strip raw))"

section \<open>Concrete inputs\<close>

text \<open>A reading of strings as integers that takes the non-empty runs of ASCII digits.\<close>

definition decimal_int :: "string \<Rightarrow> int option" where
  "decimal_int s =
     (if s \<noteq> [] \<and> (\<forall>c \<in> set s. 48 \<le> (of_char c :: nat) \<and> (of_char c :: nat) \<le> 57)
      then Some (foldl (\<lambda>n c. 10 * n + (int (of_char c) - 48)) 0 s)
      else None)"

text \<open>An empty database, before any file was read or any call made.\<close>

definition world0 :: world where
  "world0 = \<lparr> file_reads = 0, model_calls = 0, clock = 0, resume_rows = [], user_rows = [],
              completion_rows = [], job_rows = [], application_rows = [], write_log = [] \<rparr>"

text \<open>
  A configured service whose PDF reader finds two pages holding only blanks and a line
  break, and whose database accepts every write.
\<close>

definition env_blank :: env where
  "env_blank =
     \<lparr> GROQ_API_KEY = Some ''gsk-test'',
       read_pdf = (\<lambda>p. Inr [''  '', [CHR 0x0A]]),
       read_docx = (\<lambda>p. Inl ''not a docx file''),
       get_format_instructions = (\<lambda>b. ''Return JSON.''),
       llm_invoke = (\<lambda>c m. Inr ''{}''),
       parse_json = (\<lambda>s. Inr (JObj [])),
       email_ok = (\<lambda>s. True),
       str_to_int = decimal_int,
       db_error = (\<lambda>wr. None) \<rparr>"

definition parser0 :: ResumeParser where
  "parser0 = \<lparr> api_key = ''gsk-test'',
               llm = \<lparr> llm_model = ''llama-3.1-8b-instant'', llm_temperature = 0,
                       llm_api_key = ''gsk-test'' \<rparr> \<rparr>"

text \<open>An address check that lets every address through.\<close>

definition accept_all :: "string \<Rightarrow> bool" where
  "accept_all s = True"

text \<open>A candidate, her freshly uploaded resume, and the database holding both.\<close>

definition user_ada :: User where
  "user_ada = \<lparr> user_id = 1, first_name = ''Ada'', last_name = ''Lovelace'',
                email = ''ada@example.org'', role = ''candidate'' \<rparr>"

definition resume_pending :: ParsedResume where
  "resume_pending =
     \<lparr> pr_id = 1, pr_user = user_ada, pr_file_path = ''resumes/2025/01/cv.pdf'',
       pr_original_filename = ''cv.pdf'', pr_parsed_data = [], pr_skills = [],
       pr_experience_years = None, pr_education_level = None, pr_status = Pending,
       pr_error_message = None \<rparr>"

definition world_uploaded :: world where
  "world_uploaded = world0\<lparr> resume_rows := [resume_pending], user_rows := [user_ada] \<rparr>"

text \<open>
  A model response that names the candidate and three skills, two of them equal up to
  case, and says nothing of the years of experience.
\<close>

definition json_skills :: json where
  "json_skills =
     JObj [(''name'', JStr ''Ada Lovelace''),
           (''skills'', JList [JStr ''Python'', JStr ''python'', JStr ''SQL''])]"

definition env_skills :: env where
  "env_skills =
     \<lparr> GROQ_API_KEY = Some ''gsk-test'',
       read_pdf = (\<lambda>p. Inr [''Ada Lovelace. Skills: Python, python, SQL'']),
       read_docx = (\<lambda>p. Inl ''not a docx file''),
       get_format_instructions = (\<lambda>b. ''Return JSON.''),
       llm_invoke = (\<lambda>c m. Inr ''response''),
       parse_json = (\<lambda>s. Inr json_skills),
       email_ok = accept_all,
       str_to_int = decimal_int,
       db_error = (\<lambda>wr. None) \<rparr>"

text \<open>The same service over a database that refuses the profile-completion write.\<close>

definition env_locked :: env where
  "env_locked =
     env_skills\<lparr> db_error :=
       (\<lambda>wr. case wr of WCompletion c \<Rightarrow> Some ''database is locked'' | _ \<Rightarrow> None) \<rparr>"

text \<open>The same service with no credential configured.\<close>

definition env_nokey :: env where
  "env_nokey = env_skills\<lparr> GROQ_API_KEY := None \<rparr>"

text \<open>Databases holding one completed resume, with three skills and with none.\<close>

definition resume_done :: ParsedResume where
  "resume_done = resume_pending\<lparr> pr_skills := [''Python'', ''SQL'', ''Go''], pr_status := Completed \<rparr>"

definition world_done :: world where
  "world_done = world0\<lparr> resume_rows := [resume_done], user_rows := [user_ada] \<rparr>"

definition user_norole :: User where
  "user_norole = user_ada\<lparr> role := [] \<rparr>"

definition resume_noskills :: ParsedResume where
  "resume_noskills = resume_pending\<lparr> pr_status := Completed \<rparr>"

definition world_noskills :: world where
  "world_noskills = world0\<lparr> resume_rows := [resume_noskills], user_rows := [user_ada] \<rparr>"

text \<open>
  Work-experience entries as the model may return them: with an empty end date, and
  with no end date at all; and rich-schema responses holding one or the other.
\<close>

definition fields_blank :: "(string \<times> json) list" where
  "fields_blank =
     [(''company'', JStr ''ACME''), (''position'', JStr ''Engineer''),
      (''start_date'', JStr ''Jan 2020''), (''end_date'', JStr [])]"

definition entry_blank :: json where
  "entry_blank = JObj fields_blank"

definition fields_no_end :: "(string \<times> json) list" where
  "fields_no_end =
     [(''company'', JStr ''ACME''), (''position'', JStr ''Engineer''),
      (''start_date'', JStr ''Jan 2020'')]"

definition entry_no_end :: json where
  "entry_no_end = JObj fields_no_end"

definition obj_blank_end :: "(string \<times> json) list" where
  "obj_blank_end = [(''name'', JStr ''Ada Lovelace''), (''experience'', JList [entry_blank])]"

definition json_blank_end :: json where
  "json_blank_end = JObj obj_blank_end"

definition obj_no_end :: "(string \<times> json) list" where
  "obj_no_end = [(''name'', JStr ''Ada Lovelace''), (''experience'', JList [entry_no_end])]"

definition json_no_end :: json where
  "json_no_end = JObj obj_no_end"

text \<open>
  A job asking for Python, Go and Rust, the candidate's request to apply with resume 1,
  and databases where that resume lists Python, SQL and Go, or nothing.
\<close>

definition job_backend :: Job where
  "job_backend = \<lparr> j_id = 7, j_slug = ''backend-engineer-acme'',
                    j_required_skills = [''Python'', ''Go'', ''Rust''],
                    j_applications_count = 0 \<rparr>"

definition request_apply :: request where
  "request_apply = \<lparr> req_user = user_ada, req_method = ''POST'',
                       req_cover_letter = Some ''Dear ACME'', req_resume_id = Some 1 \<rparr>"

definition world_jobs :: world where
  "world_jobs = world_done\<lparr> job_rows := [job_backend] \<rparr>"

definition world_jobs_noskills :: world where
  "world_jobs_noskills = world_noskills\<lparr> job_rows := [job_backend] \<rparr>"

section \<open>Properties of the text extraction and the empty-document check\<close>

lemma strip_empty_iff: "strip s = [] \<longleftrightarrow> (\<forall>c \<in> set s. isspace c)"
proof
  assume "strip s = []"
  then have "dropWhile isspace (rev (dropWhile isspace s)) = []" by (simp add: strip_def)
  then have "\<forall>c \<in> set (dropWhile isspace s). isspace c" by (simp add: dropWhile_eq_Nil_conv)
  then have "dropWhile isspace s = []"
    by (metis hd_dropWhile hd_in_set)
  then show "\<forall>c \<in> set s. isspace c" by (simp add: dropWhile_eq_Nil_conv)
next
  assume "\<forall>c \<in> set s. isspace c"
  then have e: "dropWhile isspace s = []" by (simp add: dropWhile_eq_Nil_conv)
  show "strip s = []" by (simp only: strip_def e rev.simps dropWhile.simps)
qed

lemma extract_text_model_calls:
  "extract_text env file_path file_type w = (r, w1) \<Longrightarrow> model_calls w1 = model_calls w"
  by (auto simp: extract_text_def extract_text_from_pdf_def extract_text_from_docx_def Let_def
           split: if_splits sum.splits)

text \<open>
  C3. Whenever the text extracted from the file is empty or holds whitespace only,
  \<open>parse_resume\<close> fails with \<open>EmptyDocument\<close>, in the state the extraction left, and the
  number of calls to the model service is what it was before the call.
\<close>

theorem parse_resume_empty_document:
  assumes "extract_text env file_path file_type w = (Inr resume_text, w1)"
    and "\<forall>c \<in> set resume_text. isspace c"
  shows "parse_resume env self file_path file_type use_simple w = (Inl EmptyDocument, w1)
         \<and> model_calls w1 = model_calls w"
  using assms extract_text_model_calls[OF assms(1)]
  by (simp add: parse_resume_def strip_empty_iff)

theorem parse_resume_empty_document_witness:
  "extract_text env_blank ''cv.pdf'' ''PDF'' world0 = (Inr [], world0\<lparr> file_reads := 1 \<rparr>)
   \<and> parse_resume env_blank parser0 ''cv.pdf'' ''PDF'' True world0
       = (Inl EmptyDocument, world0\<lparr> file_reads := 1 \<rparr>)
   \<and> model_calls (world0\<lparr> file_reads := 1 \<rparr>) = model_calls world0"
proof -
  have h1: "extract_text env_blank ''cv.pdf'' ''PDF'' world0 = (Inr [], world0\<lparr> file_reads := 1 \<rparr>)"
    by code_simp
  have h2: "\<forall>c \<in> set []. isspace c" by simp
  show ?thesis
    using parse_resume_empty_document[OF h1 h2, of parser0 True] h1 by simp
qed

section \<open>Properties of strip and of the skill cleaning loop\<close>

lemma strip_Nil_or_ends:
  "strip s = [] \<or> (\<not> isspace (hd (strip s)) \<and> \<not> isspace (last (strip s)))"
proof (cases "strip s = []")
  case True then show ?thesis by simp
next
  case False
  let ?t = "dropWhile isspace s"
  let ?u = "dropWhile isspace (rev ?t)"
  have u: "?u \<noteq> []" using False by (simp only: strip_def rev_is_Nil_conv not_False_eq_True)
  have t: "?t \<noteq> []" using u by (metis dropWhile.simps(1) rev.simps(1))
  have 1: "\<not> isspace (hd ?u)" using u by (rule hd_dropWhile)
  have "last ?u = last (rev ?t)" using u by (metis append_Nil2 last_appendR takeWhile_dropWhile_id)
  also have "\<dots> = hd ?t" using t by (simp add: last_rev)
  finally have 2: "\<not> isspace (last ?u)" using hd_dropWhile[OF t] by simp
  have "hd (strip s) = last ?u" using u by (simp only: strip_def hd_rev)
  moreover have "last (strip s) = hd ?u" using u by (simp only: strip_def last_rev)
  ultimately show ?thesis using 1 2 by simp
qed

lemma strip_fixed: "s = [] \<or> (\<not> isspace (hd s) \<and> \<not> isspace (last s)) \<Longrightarrow> strip s = s"
proof (cases "s = []")
  case True then show ?thesis by (simp add: strip_def)
next
  case False
  assume "s = [] \<or> (\<not> isspace (hd s) \<and> \<not> isspace (last s))"
  with False have h: "\<not> isspace (hd s)" and l: "\<not> isspace (last s)" by auto
  have 1: "dropWhile isspace s = s" using False h by (cases s) auto
  have "hd (rev s) = last s" using False by (simp add: hd_rev)
  then have 2: "dropWhile isspace (rev s) = rev s" using False l
    by (simp add: dropWhile_eq_self_iff)
  show ?thesis by (simp only: strip_def 1 2 rev_rev_ident)
qed

lemma strip_idem: "strip (strip s) = strip s"
  using strip_Nil_or_ends[of s] by (rule strip_fixed)

lemma lower_Nil_iff: "lower s = [] \<longleftrightarrow> s = []"
  by (simp add: lower_def)


lemma clean_loop_append: "clean_loop v seen cleaned = cleaned @ clean_loop v seen []"
proof (induction v arbitrary: seen cleaned)
  case Nil then show ?case by simp
next
  case (Cons x v)
  show ?case
    using Cons.IH[of "insert (lower (strip x)) seen" "cleaned @ [strip x]"]
          Cons.IH[of "insert (lower (strip x)) seen" "[strip x]"]
          Cons.IH[of seen cleaned]
    by (simp add: Let_def)
qed

lemma clean_loop_Cons:
  "clean_loop (x # v) seen [] =
     (if strip x \<noteq> [] \<and> lower (strip x) \<notin> seen
      then strip x # clean_loop v (insert (lower (strip x)) seen) []
      else clean_loop v seen [])"
  using clean_loop_append[of v "insert (lower (strip x)) seen" "[strip x]"]
  by (simp add: Let_def)

lemma clean_loop_mem:
  "t \<in> set (clean_loop v seen []) \<Longrightarrow> t \<noteq> [] \<and> (\<exists>x \<in> set v. t = strip x) \<and> lower t \<notin> seen"
proof (induction v arbitrary: seen)
  case Nil then show ?case by simp
next
  case (Cons x v)
  show ?case
  proof (cases "strip x \<noteq> [] \<and> lower (strip x) \<notin> seen")
    case True
    with Cons.prems have "t = strip x \<or> t \<in> set (clean_loop v (insert (lower (strip x)) seen) [])"
      by (simp only: clean_loop_Cons if_True set_ConsD) auto
    then show ?thesis
    proof
      assume "t = strip x" with True show ?thesis by simp
    next
      assume "t \<in> set (clean_loop v (insert (lower (strip x)) seen) [])"
      from Cons.IH[OF this] show ?thesis by auto
    qed
  next
    case False
    with Cons.prems have "t \<in> set (clean_loop v seen [])"
      by (simp only: clean_loop_Cons if_False)
    from Cons.IH[OF this] show ?thesis by auto
  qed
qed

lemma clean_loop_distinct: "distinct (map lower (clean_loop v seen []))"
proof (induction v arbitrary: seen)
  case Nil then show ?case by simp
next
  case (Cons x v)
  show ?case
  proof (cases "strip x \<noteq> [] \<and> lower (strip x) \<notin> seen")
    case True
    have "lower (strip x) \<notin> lower ` set (clean_loop v (insert (lower (strip x)) seen) [])"
    proof
      assume "lower (strip x) \<in> lower ` set (clean_loop v (insert (lower (strip x)) seen) [])"
      then obtain t where t: "t \<in> set (clean_loop v (insert (lower (strip x)) seen) [])"
        and e: "lower (strip x) = lower t" by auto
      from clean_loop_mem[OF t] have "lower t \<notin> insert (lower (strip x)) seen" by simp
      with e show False by simp
    qed
    with True Cons.IH[of "insert (lower (strip x)) seen"] show ?thesis
      by (simp add: clean_loop_Cons del: clean_loop.simps)
  next
    case False
    with Cons.IH[of seen] show ?thesis
      by (auto simp add: clean_loop_Cons simp del: clean_loop.simps)
  qed
qed

lemma clean_loop_subseq: "subseq (clean_loop v seen []) (map strip v)"
proof (induction v arbitrary: seen)
  case Nil then show ?case by simp
next
  case (Cons x v)
  show ?case
    using Cons.IH[of seen] Cons.IH[of "insert (lower (strip x)) seen"]
    by (auto simp add: clean_loop_Cons simp del: clean_loop.simps intro: list_emb_Cons)
qed

lemma clean_loop_covers:
  "s \<in> set v \<Longrightarrow> strip s \<noteq> [] \<Longrightarrow> lower (strip s) \<in> seen \<union> lower ` set (clean_loop v seen [])"
proof (induction v arbitrary: seen)
  case Nil then show ?case by simp
next
  case (Cons x v)
  show ?case
  proof (cases "s = x")
    case True
    with Cons.prems(2) show ?thesis
      by (cases "lower (strip x) \<in> seen") (simp_all add: clean_loop_Cons del: clean_loop.simps)
  next
    case False
    with Cons.prems have "s \<in> set v" by simp
    from Cons.IH[OF this Cons.prems(2), of seen]
         Cons.IH[OF this Cons.prems(2), of "insert (lower (strip x)) seen"]
    show ?thesis by (auto simp add: clean_loop_Cons simp del: clean_loop.simps)
  qed
qed

lemma clean_loop_first:
  "t \<in> set (clean_loop v seen []) \<Longrightarrow> find (\<lambda>x. lower x = lower t) (map strip v) = Some t"
proof (induction v arbitrary: seen)
  case Nil then show ?case by simp
next
  case (Cons x v)
  show ?case
  proof (cases "strip x \<noteq> [] \<and> lower (strip x) \<notin> seen")
    case True
    with Cons.prems have "t = strip x \<or> t \<in> set (clean_loop v (insert (lower (strip x)) seen) [])"
      by (simp only: clean_loop_Cons if_True set_ConsD) auto
    then show ?thesis
    proof
      assume "t = strip x" then show ?thesis by simp
    next
      assume m: "t \<in> set (clean_loop v (insert (lower (strip x)) seen) [])"
      from clean_loop_mem[OF m] have "lower (strip x) \<noteq> lower t" by auto
      with Cons.IH[OF m] show ?thesis by simp
    qed
  next
    case False
    with Cons.prems have m: "t \<in> set (clean_loop v seen [])"
      by (simp only: clean_loop_Cons if_False)
    from clean_loop_mem[OF m] False have "lower (strip x) \<noteq> lower t"
      by (auto simp: lower_Nil_iff) (metis lower_Nil_iff)+
    with Cons.IH[OF m] show ?thesis by simp
  qed
qed

lemma clean_loop_first_seen:
  "clean_loop v seen [] = first_seen (filter (\<lambda>s. s \<noteq> [] \<and> lower s \<notin> seen) (map strip v))"
proof (induction v arbitrary: seen)
  case Nil
  then show ?case by simp
next
  case (Cons x v)
  show ?case
  proof (cases "strip x \<noteq> [] \<and> lower (strip x) \<notin> seen")
    case True
    have f: "filter (\<lambda>y. lower y \<noteq> lower (strip x))
               (filter (\<lambda>s. s \<noteq> [] \<and> lower s \<notin> seen) (map strip v))
             = filter (\<lambda>s. s \<noteq> [] \<and> lower s \<notin> insert (lower (strip x)) seen) (map strip v)"
      by (auto simp: filter_filter intro!: filter_cong)
    have "clean_loop (x # v) seen [] = strip x # clean_loop v (insert (lower (strip x)) seen) []"
      using True by (simp add: clean_loop_Cons del: clean_loop.simps)
    also have "\<dots> = strip x # first_seen
         (filter (\<lambda>s. s \<noteq> [] \<and> lower s \<notin> insert (lower (strip x)) seen) (map strip v))"
      by (simp only: Cons.IH)
    also have "\<dots> = first_seen (strip x # filter (\<lambda>s. s \<noteq> [] \<and> lower s \<notin> seen) (map strip v))"
      by (simp only: first_seen.simps f)
    also have "\<dots> = first_seen (filter (\<lambda>s. s \<noteq> [] \<and> lower s \<notin> seen) (map strip (x # v)))"
      using True by simp
    finally show ?thesis .
  next
    case False
    have "clean_loop (x # v) seen [] = clean_loop v seen []"
      using False by (auto simp add: clean_loop_Cons simp del: clean_loop.simps)
    also have "\<dots> = first_seen (filter (\<lambda>s. s \<noteq> [] \<and> lower s \<notin> seen) (map strip v))"
      by (simp only: Cons.IH)
    also have "\<dots> = first_seen (filter (\<lambda>s. s \<noteq> [] \<and> lower s \<notin> seen) (map strip (x # v)))"
      using False by auto
    finally show ?thesis .
  qed
qed

lemma clean_skills_cleaned: "skills_cleaned raw (clean_skills raw)"
proof (cases "raw = []")
  case True
  then show ?thesis by (simp add: skills_cleaned_def clean_skills_def)
next
  case False
  then have e: "clean_skills raw = clean_loop raw {} []" by (simp add: clean_skills_def)
  have a: "\<forall>s \<in> set (clean_loop raw {} []). s \<noteq> [] \<and> strip s = s"
    using clean_loop_mem[of _ raw "{}"] strip_idem by metis
  have f: "clean_loop raw {} [] = first_seen (filter (\<lambda>s. s \<noteq> []) (map strip raw))"
    using clean_loop_first_seen[of raw "{}"] by simp
  show ?thesis
    unfolding skills_cleaned_def e
    using a f clean_loop_distinct[of raw "{}"] by blast
qed

lemma and_then_Inr_iff: "and_then m f = Inr y \<longleftrightarrow> (\<exists>x. m = Inr x \<and> f x = Inr y)"
  by (cases m) (simp_all add: and_then_def)

lemma ResumeParsedSchema_validate_skills:
  assumes "ResumeParsedSchema_validate ok si j = Inr r"
  shows "\<exists>obj sk ts ss. j = JObj obj
           \<and> str_list obj ''skills'' = Inr sk \<and> r_skills r = clean_skills sk
           \<and> str_list obj ''technical_skills'' = Inr ts \<and> r_technical_skills r = clean_skills ts
           \<and> str_list obj ''soft_skills'' = Inr ss \<and> r_soft_skills r = clean_skills ss"
proof (cases j)
  case (JObj obj)
  with assms show ?thesis
    by (simp add: ResumeParsedSchema_validate_def and_then_Inr_iff) (clarsimp, blast?)
qed (use assms in \<open>simp_all add: ResumeParsedSchema_validate_def\<close>)

lemma ResumeParsedSchema_validate_experience:
  assumes "ResumeParsedSchema_validate ok si j = Inr r"
  shows "\<exists>obj. j = JObj obj
           \<and> list_field WorkExperience_validate obj ''experience'' = Inr (r_experience r)"
proof (cases j)
  case (JObj obj)
  with assms show ?thesis
    by (simp add: ResumeParsedSchema_validate_def and_then_Inr_iff) (clarsimp, blast?)
qed (use assms in \<open>simp_all add: ResumeParsedSchema_validate_def\<close>)

lemma SimpleResumeParsedSchema_validate_skills:
  assumes "SimpleResumeParsedSchema_validate ok si j = Inr s"
  shows "\<exists>obj. j = JObj obj \<and> str_list obj ''skills'' = Inr (s_skills s)
          \<and> opt_int si obj ''total_experience_years'' = Inr (s_total_experience_years s)"
proof (cases j)
  case (JObj obj)
  with assms show ?thesis
    by (simp add: SimpleResumeParsedSchema_validate_def and_then_Inr_iff) (clarsimp, blast?)
qed (use assms in \<open>simp_all add: SimpleResumeParsedSchema_validate_def\<close>)

lemma validate_items_all:
  "validate_items f xs = Inr ys \<Longrightarrow> list_all2 (\<lambda>x y. f x = Inr y) xs ys"
  by (induction xs arbitrary: ys) (auto split: sum.splits)

lemma WorkExperience_validate_end_date:
  assumes "WorkExperience_validate j = Inr e"
  shows "\<exists>obj v. j = JObj obj \<and> field obj ''end_date'' = Some (JStr v)
           \<and> we_end_date e = (if v = [] then ''Present'' else v)"
proof (cases j)
  case (JObj obj)
  with assms obtain v where v: "req_str obj ''end_date'' = Inr v"
    and e: "we_end_date e = validate_end_date v"
    by (auto simp add: WorkExperience_validate_def and_then_Inr_iff)
  from v have "field obj ''end_date'' = Some (JStr v)"
    by (auto simp: req_str_def split: option.splits json.splits)
  with e JObj show ?thesis by (simp add: validate_end_date_def)
qed (use assms in \<open>simp_all add: WorkExperience_validate_def\<close>)

lemma WorkExperience_validate_no_end_date:
  assumes "field obj ''end_date'' = None \<or> field obj ''end_date'' = Some JNull"
  shows "\<exists>d. WorkExperience_validate (JObj obj) = Inl d"
proof -
  from assms have "\<exists>d. req_str obj ''end_date'' = Inl d"
    by (auto simp: req_str_def)
  then have "\<not> (\<exists>e. WorkExperience_validate (JObj obj) = Inr e)"
    by (auto simp add: WorkExperience_validate_def and_then_Inr_iff)
  then show ?thesis by (cases "WorkExperience_validate (JObj obj)") auto
qed

section \<open>Database rows\<close>

lemma find_put_row: "find (\<lambda>r. key r = key x) (put_row key x rows) = Some x"
proof (cases "key x \<in> set (map key rows)")
  case False
  then show ?thesis by (simp add: put_row_def)
next
  case True
  then have "find (\<lambda>r. key r = key x) (map (\<lambda>r. if key r = key x then x else r) rows) = Some x"
    by (induction rows) auto
  with True show ?thesis by (simp add: put_row_def)
qed

lemma db_write_Inr: "db_write env wr w = (Inr u, w') \<Longrightarrow> w' = apply_write wr w"
  by (auto simp: db_write_def split: option.splits)

lemma db_write_Inl: "db_write env wr w = (Inl e, w') \<Longrightarrow> w' = w"
  by (auto simp: db_write_def split: option.splits)

lemma db_write_cases:
  "db_write env wr w = (r, w') \<Longrightarrow>
     (r = Inr () \<and> w' = apply_write wr w) \<or> ((\<exists>m. r = Inl (DatabaseError m)) \<and> w' = w)"
  by (auto simp: db_write_def split: option.splits)

lemma apply_write_counters:
  "file_reads (apply_write wr w) = file_reads w \<and> model_calls (apply_write wr w) = model_calls w"
  by (cases wr) (simp_all add: apply_write_def Let_def)

lemma db_write_counters:
  "db_write env wr w = (r, w') \<Longrightarrow> file_reads w' = file_reads w \<and> model_calls w' = model_calls w"
  using apply_write_counters by (auto simp: db_write_def split: option.splits)

lemma resume_rows_WCompletion:
  "resume_rows (apply_write (WCompletion c) w) = resume_rows w"
  by (simp add: apply_write_def Let_def)

lemma completion_rows_WCompletion:
  "completion_rows (apply_write (WCompletion c) w) = put_row pc_user c (completion_rows w)"
  by (simp add: apply_write_def Let_def)

lemma clock_apply_write: "clock (apply_write wr w) = Suc (clock w)"
  by (cases wr) (simp_all add: apply_write_def Let_def)

section \<open>Profile completion\<close>

lemma completion_fields_eq:
  "completion_fields user w =
     (let name_set = (first_name user \<noteq> [] \<and> last_name user \<noteq> []);
          email_set = (email user \<noteq> []);
          has_resume = (completed_resumes user w \<noteq> []);
          has_skills = (has_resume \<and> pr_skills (hd (completed_resumes user w)) \<noteq> []);
          role_set = (role user \<noteq> [])
      in ((if name_set then 20 else 0) + (if email_set then 20 else 0)
            + (if has_resume then 30 else 0) + (if has_skills then 15 else 0)
            + (if role_set then 15 else 0),
          (if name_set then [] else [''name'']) @ (if email_set then [] else [''email''])
            @ (if has_resume then [] else [''resume'']) @ (if role_set then [] else [''role'']),
          (if name_set then [] else [''Complete your name''])
            @ (if email_set then [] else [''Add your email address''])
            @ (if has_resume
               then (if has_skills then [] else [''Add more skills to your resume''])
               else [''Upload your resume to boost your profile''])
            @ (if role_set then [] else [''Select your role (Candidate/Recruiter)''])))"
  by (cases "completed_resumes user w")
     (simp_all add: completion_fields_def Let_def first_def skill_count_def)

lemma completion_fields_resume_rows:
  "resume_rows w' = resume_rows w \<Longrightarrow> completion_fields user w' = completion_fields user w"
  by (simp add: completion_fields_def completed_resumes_def)

lemma calculate_profile_completion_stores:
  assumes "calculate_profile_completion env user w = (Inr (), w')"
  shows "completion_of user w' =
           Some \<lparr> pc_user = user_id user,
                  pc_completion_score = fst (completion_fields user w),
                  pc_missing_fields = fst (snd (completion_fields user w)),
                  pc_suggestions = snd (snd (completion_fields user w)),
                  pc_last_calculated = clock w \<rparr>
         \<and> resume_rows w' = resume_rows w \<and> clock w' = Suc (clock w)"
proof -
  let ?c = "\<lparr> pc_user = user_id user,
                  pc_completion_score = fst (completion_fields user w),
                  pc_missing_fields = fst (snd (completion_fields user w)),
                  pc_suggestions = snd (snd (completion_fields user w)),
                  pc_last_calculated = clock w \<rparr>"
  from assms have "db_write env (WCompletion ?c) w = (Inr (), w')"
    by (simp add: calculate_profile_completion_def split_beta)
  then have w': "w' = apply_write (WCompletion ?c) w" by (rule db_write_Inr)
  have "find (\<lambda>r. pc_user r = pc_user ?c) (put_row pc_user ?c (completion_rows w)) = Some ?c"
    by (rule find_put_row)
  then show ?thesis
    by (simp add: w' completion_of_def completion_rows_WCompletion resume_rows_WCompletion
                  clock_apply_write)
qed

lemma calculate_profile_completion_fails:
  assumes "calculate_profile_completion env user w = (Inl e, w')"
  shows "w' = w"
  using assms by (auto simp add: calculate_profile_completion_def split_beta dest: db_write_Inl)

section \<open>The profile completion score\<close>

text \<open>
  C6 (as amended). A recalculation that the database accepts leaves the user one
  \<open>ProfileCompletion\<close> row whose score is the sum of 20 for a first and a last name, 20
  for an email, 30 for a completed resume, 15 for a most recent completed resume with a
  non-empty skill list, and 15 for a role. The row lists the labels \<open>name\<close>, \<open>email\<close>,
  \<open>resume\<close> and \<open>role\<close> of the conditions that fail, each with its suggestion; a
  completed resume without skills adds the suggestion to add skills and no label, and
  without a completed resume the skills condition adds nothing of its own.
\<close>

theorem profile_completion_weights:
  assumes "calculate_profile_completion env user w = (Inr (), w')"
  shows "\<exists>c. completion_of user w' = Some c \<and>
     (let name_set = (first_name user \<noteq> [] \<and> last_name user \<noteq> []);
          email_set = (email user \<noteq> []);
          has_resume = (completed_resumes user w \<noteq> []);
          has_skills = (has_resume \<and> pr_skills (hd (completed_resumes user w)) \<noteq> []);
          role_set = (role user \<noteq> [])
      in pc_completion_score c =
           (if name_set then 20 else 0) + (if email_set then 20 else 0)
             + (if has_resume then 30 else 0) + (if has_skills then 15 else 0)
             + (if role_set then 15 else 0)
       \<and> pc_missing_fields c =
           (if name_set then [] else [''name'']) @ (if email_set then [] else [''email''])
             @ (if has_resume then [] else [''resume'']) @ (if role_set then [] else [''role''])
       \<and> pc_suggestions c =
           (if name_set then [] else [''Complete your name''])
             @ (if email_set then [] else [''Add your email address''])
             @ (if has_resume
                then (if has_skills then [] else [''Add more skills to your resume''])
                else [''Upload your resume to boost your profile''])
             @ (if role_set then [] else [''Select your role (Candidate/Recruiter)'']))"
  using calculate_profile_completion_stores[OF assms]
  by (simp add: completion_fields_eq[of user w] Let_def)

lemma done_ada: "completed_resumes user_ada world_done = [resume_done]"
  by code_simp

lemma done_norole: "completed_resumes user_norole world_done = [resume_done]"
  by code_simp

theorem profile_completion_weights_witness:
  "calculate_profile_completion env_skills user_ada world_done
     = (Inr (), snd (calculate_profile_completion env_skills user_ada world_done))
   \<and> (\<exists>c. completion_of user_ada (snd (calculate_profile_completion env_skills user_ada world_done)) = Some c
        \<and> pc_completion_score c = 100 \<and> pc_missing_fields c = [] \<and> pc_suggestions c = [])
   \<and> calculate_profile_completion env_skills user_norole world_done
     = (Inr (), snd (calculate_profile_completion env_skills user_norole world_done))
   \<and> (\<exists>c. completion_of user_norole (snd (calculate_profile_completion env_skills user_norole world_done)) = Some c
        \<and> pc_completion_score c = 85 \<and> pc_missing_fields c = [''role'']
        \<and> pc_suggestions c = [''Select your role (Candidate/Recruiter)''])"
proof -
  have f1: "fst (calculate_profile_completion env_skills user_ada world_done) = Inr ()"
    by code_simp
  have f2: "fst (calculate_profile_completion env_skills user_norole world_done) = Inr ()"
    by code_simp
  have h1: "calculate_profile_completion env_skills user_ada world_done
     = (Inr (), snd (calculate_profile_completion env_skills user_ada world_done))"
    using f1 by (metis prod.collapse)
  have h2: "calculate_profile_completion env_skills user_norole world_done
     = (Inr (), snd (calculate_profile_completion env_skills user_norole world_done))"
    using f2 by (metis prod.collapse)
  have s: "pr_skills resume_done \<noteq> []" by code_simp
  have u1: "first_name user_ada \<noteq> [] \<and> last_name user_ada \<noteq> [] \<and> email user_ada \<noteq> []
            \<and> role user_ada \<noteq> []"
    by (simp add: user_ada_def)
  have u2: "first_name user_norole \<noteq> [] \<and> last_name user_norole \<noteq> []
            \<and> email user_norole \<noteq> [] \<and> role user_norole = []"
    by (simp add: user_norole_def user_ada_def)
  have c1: "\<exists>c. completion_of user_ada (snd (calculate_profile_completion env_skills user_ada world_done)) = Some c
        \<and> pc_completion_score c = 100 \<and> pc_missing_fields c = [] \<and> pc_suggestions c = []"
    using profile_completion_weights[OF h1] s u1
    by (simp add: done_ada Let_def)
  have c2: "\<exists>c. completion_of user_norole (snd (calculate_profile_completion env_skills user_norole world_done)) = Some c
        \<and> pc_completion_score c = 85 \<and> pc_missing_fields c = [''role'']
        \<and> pc_suggestions c = [''Select your role (Candidate/Recruiter)'']"
    using profile_completion_weights[OF h2] s u2
    by (simp add: done_norole Let_def)
  show ?thesis using h1 h2 c1 c2 by blast
qed

text \<open>
  With every other condition met, a completed resume without skills gives the score 85,
  one suggestion and an empty list of missing fields: the failed skills condition has
  no label.
\<close>

theorem profile_completion_label_counterexample:
  "completed_resumes user_ada world_noskills = [resume_noskills]
   \<and> pr_skills resume_noskills = []
   \<and> fst (calculate_profile_completion env_skills user_ada world_noskills) = Inr ()
   \<and> map_option pc_completion_score
        (completion_of user_ada (snd (calculate_profile_completion env_skills user_ada world_noskills)))
       = Some 85
   \<and> map_option pc_missing_fields
        (completion_of user_ada (snd (calculate_profile_completion env_skills user_ada world_noskills)))
       = Some []
   \<and> map_option pc_suggestions
        (completion_of user_ada (snd (calculate_profile_completion env_skills user_ada world_noskills)))
       = Some [''Add more skills to your resume'']"
  by code_simp

lemma calc_same:
  assumes "calculate_profile_completion env user w = (Inr (), w1)"
  shows "completion_fields user w1 = completion_fields user w"
proof (rule completion_fields_resume_rows)
  show "resume_rows w1 = resume_rows w"
    using calculate_profile_completion_stores[OF assms] by blast
qed

text \<open>
  C7. Where a recalculation has gone through, a second one right after it, on the same
  user and the same database, leaves the user's row with the same score, the same
  missing fields and the same suggestions, whether or not the database accepts the
  second write; only the time of the calculation moves on.
\<close>

theorem profile_completion_idempotent:
  assumes "calculate_profile_completion env user w = (Inr (), w1)"
  shows "\<exists>c1 c2. completion_of user w1 = Some c1
           \<and> completion_of user (snd (calculate_profile_completion env user w1)) = Some c2
           \<and> pc_completion_score c2 = pc_completion_score c1
           \<and> pc_missing_fields c2 = pc_missing_fields c1
           \<and> pc_suggestions c2 = pc_suggestions c1"
proof -
  let ?c = "\<lambda>t. \<lparr> pc_user = user_id user,
                  pc_completion_score = fst (completion_fields user w),
                  pc_missing_fields = fst (snd (completion_fields user w)),
                  pc_suggestions = snd (snd (completion_fields user w)),
                  pc_last_calculated = t \<rparr>"
  have first: "completion_of user w1 = Some (?c (clock w))"
    using calculate_profile_completion_stores[OF assms] by blast
  have same: "completion_fields user w1 = completion_fields user w"
    using assms by (rule calc_same)
  obtain r w2 where second: "calculate_profile_completion env user w1 = (r, w2)"
    by (cases "calculate_profile_completion env user w1")
  have "\<exists>t. completion_of user w2 = Some (?c t)"
  proof (cases r)
    case (Inl e)
    with second have "w2 = w1" by (simp only: calculate_profile_completion_fails)
    with first show ?thesis by blast
  next
    case (Inr u)
    with second have "calculate_profile_completion env user w1 = (Inr (), w2)" by simp
    from calculate_profile_completion_stores[OF this]
    have "completion_of user w2 =
           Some \<lparr> pc_user = user_id user,
                  pc_completion_score = fst (completion_fields user w1),
                  pc_missing_fields = fst (snd (completion_fields user w1)),
                  pc_suggestions = snd (snd (completion_fields user w1)),
                  pc_last_calculated = clock w1 \<rparr>" by blast
    then show ?thesis unfolding same by blast
  qed
  then obtain t where "completion_of user w2 = Some (?c t)" by blast
  with first second show ?thesis by simp
qed

theorem profile_completion_idempotent_witness:
  "calculate_profile_completion env_skills user_ada world_done
     = (Inr (), snd (calculate_profile_completion env_skills user_ada world_done))
   \<and> (\<exists>c1 c2.
         completion_of user_ada (snd (calculate_profile_completion env_skills user_ada world_done)) = Some c1
       \<and> completion_of user_ada
           (snd (calculate_profile_completion env_skills user_ada
                   (snd (calculate_profile_completion env_skills user_ada world_done)))) = Some c2
       \<and> pc_completion_score c2 = pc_completion_score c1
       \<and> pc_missing_fields c2 = pc_missing_fields c1
       \<and> pc_suggestions c2 = pc_suggestions c1
       \<and> pc_last_calculated c1 = 0 \<and> pc_last_calculated c2 = 1)"
proof -
  have f1: "fst (calculate_profile_completion env_skills user_ada world_done) = Inr ()"
    by code_simp
  have h1: "calculate_profile_completion env_skills user_ada world_done
     = (Inr (), snd (calculate_profile_completion env_skills user_ada world_done))"
    using f1 by (metis prod.collapse)
  have t1: "map_option pc_last_calculated
       (completion_of user_ada (snd (calculate_profile_completion env_skills user_ada world_done))) = Some 0"
    by code_simp
  have t2: "map_option pc_last_calculated
       (completion_of user_ada
           (snd (calculate_profile_completion env_skills user_ada
                   (snd (calculate_profile_completion env_skills user_ada world_done))))) = Some 1"
    by code_simp
  from profile_completion_idempotent[OF h1] obtain c1 c2 where
    c1: "completion_of user_ada (snd (calculate_profile_completion env_skills user_ada world_done)) = Some c1"
    and c2: "completion_of user_ada
           (snd (calculate_profile_completion env_skills user_ada
                   (snd (calculate_profile_completion env_skills user_ada world_done)))) = Some c2"
    and eq: "pc_completion_score c2 = pc_completion_score c1"
            "pc_missing_fields c2 = pc_missing_fields c1"
            "pc_suggestions c2 = pc_suggestions c1"
    by blast
  from t1 c1 have l1: "pc_last_calculated c1 = 0" by simp
  from t2 c2 have l2: "pc_last_calculated c2 = 1" by simp
  show ?thesis using h1 c1 c2 eq l1 l2 by blast
qed

section \<open>The two schemas\<close>

text \<open>
  C1 (as amended). In every result of the rich schema each of the three skill lists is
  the cleaned form of the list the response gave: entries trimmed, none empty, no two
  equal under case-insensitive comparison, in first-seen order and in the casing of the
  first occurrence. In a result of the simple schema, which declares no validator, the
  skill list is the list the response gave, unchanged.
\<close>

theorem parsed_skills_cleaned:
  "(ResumeParsedSchema_validate ok si j = Inr r \<longrightarrow>
      (\<exists>obj sk ts ss. j = JObj obj
         \<and> str_list obj ''skills'' = Inr sk \<and> skills_cleaned sk (r_skills r)
         \<and> str_list obj ''technical_skills'' = Inr ts \<and> skills_cleaned ts (r_technical_skills r)
         \<and> str_list obj ''soft_skills'' = Inr ss \<and> skills_cleaned ss (r_soft_skills r)))
   \<and> (SimpleResumeParsedSchema_validate ok si j = Inr s \<longrightarrow>
      (\<exists>obj. j = JObj obj \<and> str_list obj ''skills'' = Inr (s_skills s)))"
proof (intro conjI impI)
  assume "ResumeParsedSchema_validate ok si j = Inr r"
  from ResumeParsedSchema_validate_skills[OF this] obtain obj sk ts ss where
    "j = JObj obj" "str_list obj ''skills'' = Inr sk" "r_skills r = clean_skills sk"
    "str_list obj ''technical_skills'' = Inr ts" "r_technical_skills r = clean_skills ts"
    "str_list obj ''soft_skills'' = Inr ss" "r_soft_skills r = clean_skills ss"
    by blast
  then show "\<exists>obj sk ts ss. j = JObj obj
         \<and> str_list obj ''skills'' = Inr sk \<and> skills_cleaned sk (r_skills r)
         \<and> str_list obj ''technical_skills'' = Inr ts \<and> skills_cleaned ts (r_technical_skills r)
         \<and> str_list obj ''soft_skills'' = Inr ss \<and> skills_cleaned ss (r_soft_skills r)"
    using clean_skills_cleaned by metis
next
  assume "SimpleResumeParsedSchema_validate ok si j = Inr s"
  from SimpleResumeParsedSchema_validate_skills[OF this]
  show "\<exists>obj. j = JObj obj \<and> str_list obj ''skills'' = Inr (s_skills s)" by blast
qed

theorem parsed_skills_cleaned_witness:
  "(\<exists>r. ResumeParsedSchema_validate accept_all decimal_int json_skills = Inr r
        \<and> r_skills r = [''Python'', ''SQL'']
        \<and> skills_cleaned [''Python'', ''python'', ''SQL''] (r_skills r))
   \<and> (\<exists>s. SimpleResumeParsedSchema_validate accept_all decimal_int json_skills = Inr s
        \<and> s_skills s = [''Python'', ''python'', ''SQL''])"
proof -
  have "\<not> isl (ResumeParsedSchema_validate accept_all decimal_int json_skills)" by code_simp
  then obtain r where r: "ResumeParsedSchema_validate accept_all decimal_int json_skills = Inr r"
    by (cases "ResumeParsedSchema_validate accept_all decimal_int json_skills") auto
  have "\<not> isl (SimpleResumeParsedSchema_validate accept_all decimal_int json_skills)" by code_simp
  then obtain s where s: "SimpleResumeParsedSchema_validate accept_all decimal_int json_skills = Inr s"
    by (cases "SimpleResumeParsedSchema_validate accept_all decimal_int json_skills") auto
  have er: "map_sum id r_skills (ResumeParsedSchema_validate accept_all decimal_int json_skills)
              = Inr [''Python'', ''SQL'']" by code_simp
  have es: "map_sum id s_skills (SimpleResumeParsedSchema_validate accept_all decimal_int json_skills)
              = Inr [''Python'', ''python'', ''SQL'']" by code_simp
  have raw: "str_list [(''name'', JStr ''Ada Lovelace''),
                       (''skills'', JList [JStr ''Python'', JStr ''python'', JStr ''SQL''])] ''skills''
               = Inr [''Python'', ''python'', ''SQL'']" by code_simp
  from parsed_skills_cleaned[of accept_all decimal_int json_skills r s] r s
  obtain obj sk where o: "json_skills = JObj obj" "str_list obj ''skills'' = Inr sk"
    "skills_cleaned sk (r_skills r)" by blast
  from o(1) have "obj = [(''name'', JStr ''Ada Lovelace''),
                         (''skills'', JList [JStr ''Python'', JStr ''python'', JStr ''SQL''])]"
    by (simp add: json_skills_def)
  with raw o(2) have "sk = [''Python'', ''python'', ''SQL'']" by simp
  with o er es r s show ?thesis by simp
qed

theorem process_resume_skills_counterexample:
  "pr_status (fst (snd (process_resume env_skills resume_pending world_uploaded))) = Completed
   \<and> pr_skills (fst (snd (process_resume env_skills resume_pending world_uploaded)))
       = [''Python'', ''python'', ''SQL'']
   \<and> lower ''Python'' = lower ''python''"
  by code_simp

lemma list_field_cases:
  assumes "list_field f obj k = Inr ys"
  shows "(field obj k = None \<and> ys = []) \<or> (\<exists>xs. field obj k = Some (JList xs) \<and> validate_items f xs = Inr ys)"
proof (cases "field obj k")
  case None
  with assms show ?thesis by (simp add: list_field_def)
next
  case (Some v)
  show ?thesis
  proof (cases v)
    case (JList xs)
    with Some assms show ?thesis by (simp add: list_field_def)
  qed (use Some assms in \<open>simp_all add: list_field_def\<close>)
qed

lemma rich_experience_entries:
  assumes "ResumeParsedSchema_validate ok si j = Inr r"
  shows "\<exists>obj raws. j = JObj obj
           \<and> (field obj ''experience'' = Some (JList raws)
                \<or> (field obj ''experience'' = None \<and> raws = []))
           \<and> list_all2 (\<lambda>raw e. \<exists>ob v. raw = JObj ob \<and> field ob ''end_date'' = Some (JStr v)
                                   \<and> we_end_date e = (if v = [] then ''Present'' else v))
                raws (r_experience r)"
proof -
  from ResumeParsedSchema_validate_experience[OF assms] obtain obj where
    j: "j = JObj obj"
    and l: "list_field WorkExperience_validate obj ''experience'' = Inr (r_experience r)" by blast
  from list_field_cases[OF l] show ?thesis
  proof
    assume "field obj ''experience'' = None \<and> r_experience r = []"
    with j show ?thesis by simp
  next
    assume "\<exists>xs. field obj ''experience'' = Some (JList xs)
                \<and> validate_items WorkExperience_validate xs = Inr (r_experience r)"
    then obtain xs where f: "field obj ''experience'' = Some (JList xs)"
      and v: "validate_items WorkExperience_validate xs = Inr (r_experience r)" by blast
    have "list_all2 (\<lambda>a b. WorkExperience_validate a = Inr b) xs (r_experience r)"
      using v by (rule validate_items_all)
    then have "list_all2 (\<lambda>raw e. \<exists>ob v. raw = JObj ob \<and> field ob ''end_date'' = Some (JStr v)
                                   \<and> we_end_date e = (if v = [] then ''Present'' else v))
                xs (r_experience r)"
      by (rule list_all2_mono) (rule WorkExperience_validate_end_date)
    with j f show ?thesis by blast
  qed
qed

lemma list_all2_mem: "list_all2 P xs ys \<Longrightarrow> x \<in> set xs \<Longrightarrow> \<exists>y. P x y"
  by (induction rule: list_all2_induct) auto

lemma rich_experience_rejected:
  assumes f: "field obj ''experience'' = Some (JList raws)"
    and m: "JObj ob \<in> set raws"
    and n: "field ob ''end_date'' = None \<or> field ob ''end_date'' = Some JNull"
  shows "\<exists>d. ResumeParsedSchema_validate ok si (JObj obj) = Inl d"
proof (cases "ResumeParsedSchema_validate ok si (JObj obj)")
  case (Inl d)
  then show ?thesis by blast
next
  case (Inr r)
  from rich_experience_entries[OF Inr] obtain obj2 raws2 where
    o: "JObj obj = JObj obj2"
    and c: "field obj2 ''experience'' = Some (JList raws2)
            \<or> (field obj2 ''experience'' = None \<and> raws2 = [])"
    and a: "list_all2 (\<lambda>raw e. \<exists>ob v. raw = JObj ob \<and> field ob ''end_date'' = Some (JStr v)
                                   \<and> we_end_date e = (if v = [] then ''Present'' else v))
                raws2 (r_experience r)" by blast
  from o have "obj2 = obj" by simp
  with c f have "raws2 = raws" by simp
  with a have a': "list_all2 (\<lambda>raw e. \<exists>ob v. raw = JObj ob \<and> field ob ''end_date'' = Some (JStr v)
                                   \<and> we_end_date e = (if v = [] then ''Present'' else v))
                raws (r_experience r)" by (simp only:)
  from list_all2_mem[OF a' m] obtain v where "field ob ''end_date'' = Some (JStr v)" by auto
  with n have False by auto
  then show ?thesis ..
qed

text \<open>
  C8 (as amended). In a result of the rich schema the work-experience entries answer,
  one to one and in order, to the entries the response gave, each of which gave its end
  date as a string; the returned end date is \<open>Present\<close> where that string is empty and
  the string itself otherwise. A response with a work-experience entry whose end date
  is absent or \<open>null\<close> yields no result: the validation fails. The same holds of the
  validation of a single entry.
\<close>

theorem work_experience_end_date:
  "(ResumeParsedSchema_validate ok si j = Inr r \<longrightarrow>
      (\<exists>obj raws. j = JObj obj
         \<and> (field obj ''experience'' = Some (JList raws)
              \<or> (field obj ''experience'' = None \<and> raws = []))
         \<and> list_all2 (\<lambda>raw e. \<exists>ob v. raw = JObj ob \<and> field ob ''end_date'' = Some (JStr v)
                                 \<and> we_end_date e = (if v = [] then ''Present'' else v))
              raws (r_experience r)))
   \<and> (field obj' ''experience'' = Some (JList raws') \<and> JObj ob' \<in> set raws'
        \<and> (field ob' ''end_date'' = None \<or> field ob' ''end_date'' = Some JNull) \<longrightarrow>
      (\<exists>d. ResumeParsedSchema_validate ok si (JObj obj') = Inl d))
   \<and> (WorkExperience_validate j' = Inr e \<longrightarrow>
      (\<exists>ob v. j' = JObj ob \<and> field ob ''end_date'' = Some (JStr v)
         \<and> we_end_date e = (if v = [] then ''Present'' else v)))
   \<and> (field ob'' ''end_date'' = None \<or> field ob'' ''end_date'' = Some JNull \<longrightarrow>
      (\<exists>d. WorkExperience_validate (JObj ob'') = Inl d))"
proof (intro conjI impI)
  assume "ResumeParsedSchema_validate ok si j = Inr r"
  then show "\<exists>obj raws. j = JObj obj
         \<and> (field obj ''experience'' = Some (JList raws)
              \<or> (field obj ''experience'' = None \<and> raws = []))
         \<and> list_all2 (\<lambda>raw e. \<exists>ob v. raw = JObj ob \<and> field ob ''end_date'' = Some (JStr v)
                                 \<and> we_end_date e = (if v = [] then ''Present'' else v))
              raws (r_experience r)"
    by (rule rich_experience_entries)
next
  assume a: "field obj' ''experience'' = Some (JList raws') \<and> JObj ob' \<in> set raws'
        \<and> (field ob' ''end_date'' = None \<or> field ob' ''end_date'' = Some JNull)"
  show "\<exists>d. ResumeParsedSchema_validate ok si (JObj obj') = Inl d"
    by (rule rich_experience_rejected[of obj' raws' ob']) (use a in blast)+
next
  assume "WorkExperience_validate j' = Inr e"
  then show "\<exists>ob v. j' = JObj ob \<and> field ob ''end_date'' = Some (JStr v)
         \<and> we_end_date e = (if v = [] then ''Present'' else v)"
    by (rule WorkExperience_validate_end_date)
next
  assume "field ob'' ''end_date'' = None \<or> field ob'' ''end_date'' = Some JNull"
  then show "\<exists>d. WorkExperience_validate (JObj ob'') = Inl d"
    by (rule WorkExperience_validate_no_end_date)
qed

theorem work_experience_end_date_witness:
  "(\<exists>r. ResumeParsedSchema_validate accept_all decimal_int json_blank_end = Inr r
        \<and> list_all2 (\<lambda>raw e. \<exists>ob v. raw = JObj ob \<and> field ob ''end_date'' = Some (JStr v)
                                 \<and> we_end_date e = (if v = [] then ''Present'' else v))
              [entry_blank] (r_experience r)
        \<and> map we_end_date (r_experience r) = [''Present''])
   \<and> (\<exists>d. ResumeParsedSchema_validate accept_all decimal_int json_no_end = Inl d)
   \<and> (\<exists>e. WorkExperience_validate entry_blank = Inr e \<and> we_end_date e = ''Present'')
   \<and> (\<exists>d. WorkExperience_validate entry_no_end = Inl d)"
proof -
  have "\<not> isl (ResumeParsedSchema_validate accept_all decimal_int json_blank_end)" by code_simp
  then obtain r where r: "ResumeParsedSchema_validate accept_all decimal_int json_blank_end = Inr r"
    by (cases "ResumeParsedSchema_validate accept_all decimal_int json_blank_end") auto
  have "\<not> isl (WorkExperience_validate entry_blank)" by code_simp
  then obtain e where e: "WorkExperience_validate entry_blank = Inr e"
    by (cases "WorkExperience_validate entry_blank") auto
  have ev: "map_sum id (\<lambda>r. map we_end_date (r_experience r))
              (ResumeParsedSchema_validate accept_all decimal_int json_blank_end) = Inr [''Present'']"
    by code_simp
  have g1: "field obj_no_end ''experience'' = Some (JList [entry_no_end])" by code_simp
  have g2: "field fields_no_end ''end_date'' = None" by code_simp
  have g3: "field obj_blank_end ''experience'' = Some (JList [entry_blank])" by code_simp
  have g4: "field fields_blank ''end_date'' = Some (JStr [])" by code_simp
  have m: "JObj fields_no_end \<in> set [entry_no_end]" by (simp add: entry_no_end_def)
  note t = work_experience_end_date[where ok = accept_all and si = decimal_int
             and j = json_blank_end and r = r and obj' = obj_no_end and raws' = "[entry_no_end]"
             and ob' = fields_no_end and j' = entry_blank and e = e and ob'' = fields_no_end]
  from t r obtain obj raws where o: "json_blank_end = JObj obj"
    and c: "field obj ''experience'' = Some (JList raws)
            \<or> (field obj ''experience'' = None \<and> raws = [])"
    and a: "list_all2 (\<lambda>raw e. \<exists>ob v. raw = JObj ob \<and> field ob ''end_date'' = Some (JStr v)
                                 \<and> we_end_date e = (if v = [] then ''Present'' else v))
              raws (r_experience r)" by blast
  from o have "obj = obj_blank_end" by (simp add: json_blank_end_def)
  with c g3 have "raws = [entry_blank]" by simp
  with a have 1: "list_all2 (\<lambda>raw e. \<exists>ob v. raw = JObj ob \<and> field ob ''end_date'' = Some (JStr v)
                                 \<and> we_end_date e = (if v = [] then ''Present'' else v))
              [entry_blank] (r_experience r)" by (simp only:)
  from ev r have 2: "map we_end_date (r_experience r) = [''Present'']" by simp
  from t g1 g2 m have "\<exists>d. ResumeParsedSchema_validate accept_all decimal_int (JObj obj_no_end) = Inl d"
    by blast
  then have 3: "\<exists>d. ResumeParsedSchema_validate accept_all decimal_int json_no_end = Inl d"
    by (simp only: json_no_end_def)
  from t e obtain ob v where b: "entry_blank = JObj ob" "field ob ''end_date'' = Some (JStr v)"
    "we_end_date e = (if v = [] then ''Present'' else v)" by blast
  from b(1) have "ob = fields_blank" by (simp add: entry_blank_def)
  with g4 b(2) have "v = []" by simp
  with b(3) have 4: "we_end_date e = ''Present''" by simp
  from t g2 have "\<exists>d. WorkExperience_validate (JObj fields_no_end) = Inl d" by blast
  then have 5: "\<exists>d. WorkExperience_validate entry_no_end = Inl d"
    by (simp only: entry_no_end_def)
  have A: "\<exists>r. ResumeParsedSchema_validate accept_all decimal_int json_blank_end = Inr r
        \<and> list_all2 (\<lambda>raw e. \<exists>ob v. raw = JObj ob \<and> field ob ''end_date'' = Some (JStr v)
                                 \<and> we_end_date e = (if v = [] then ''Present'' else v))
              [entry_blank] (r_experience r)
        \<and> map we_end_date (r_experience r) = [''Present'']"
    by (rule exI[of _ r]) (intro conjI r 1 2)
  have C: "\<exists>e. WorkExperience_validate entry_blank = Inr e \<and> we_end_date e = ''Present''"
    by (rule exI[of _ e]) (intro conjI e 4)
  show ?thesis by (intro conjI A 3 C 5)
qed

theorem work_experience_no_end_date_counterexample:
  "WorkExperience_validate entry_no_end = Inl ''end_date: Field required''
   \<and> ResumeParsedSchema_validate accept_all decimal_int json_no_end = Inl ''end_date: Field required''"
  by code_simp

section \<open>The parsing orchestrator's credential\<close>

lemma ResumeParser_init_Inr:
  "ResumeParser_init env api_key_arg = Inr p \<Longrightarrow> api_key p \<noteq> [] \<and> llm_api_key (llm p) = api_key p"
  by (auto simp: ResumeParser_init_def split: option.splits if_splits)

lemma ResumeParser_init_missing:
  "api_key_arg = None \<or> api_key_arg = Some [] \<Longrightarrow>
   GROQ_API_KEY env = None \<or> GROQ_API_KEY env = Some [] \<Longrightarrow>
   ResumeParser_init env api_key_arg = Inl MissingCredential"
  by (auto simp: ResumeParser_init_def py_or_def)

lemma process_resume_try_no_credential:
  assumes "ResumeParser_init env None = Inl MissingCredential"
  shows "\<exists>e w1. process_resume_try env pr w = (Inl e, pr\<lparr> pr_status := Processing \<rparr>, w1)
           \<and> file_reads w1 = file_reads w \<and> model_calls w1 = model_calls w"
proof -
  obtain r0 w1 where d: "db_write env (WResume (pr\<lparr> pr_status := Processing \<rparr>)) w = (r0, w1)"
    by (cases "db_write env (WResume (pr\<lparr> pr_status := Processing \<rparr>)) w")
  note c = db_write_counters[OF d]
  show ?thesis
  proof (cases r0)
    case (Inl e)
    with d c show ?thesis by (simp add: process_resume_try_def Let_def)
  next
    case (Inr u)
    with d c assms show ?thesis by (simp add: process_resume_try_def Let_def)
  qed
qed

lemma process_resume_no_credential:
  assumes "ResumeParser_init env None = Inl MissingCredential"
  shows "\<exists>e pr' w'. process_resume env pr w = (Inl e, pr', w') \<and> pr_status pr' = Failed
           \<and> file_reads w' = file_reads w \<and> model_calls w' = model_calls w"
proof -
  from process_resume_try_no_credential[OF assms, of pr w] obtain e w1 where
    t: "process_resume_try env pr w = (Inl e, pr\<lparr> pr_status := Processing \<rparr>, w1)"
    and c1: "file_reads w1 = file_reads w" "model_calls w1 = model_calls w" by blast
  let ?pr' = "pr\<lparr> pr_status := Processing \<rparr>\<lparr> pr_status := Failed, pr_error_message := Some (message_of e) \<rparr>"
  obtain r2 w2 where d: "db_write env (WResume ?pr') w1 = (r2, w2)"
    by (cases "db_write env (WResume ?pr') w1")
  note c2 = db_write_counters[OF d]
  show ?thesis
  proof (cases r2)
    case (Inl e2)
    with t d c1 c2 show ?thesis by (simp add: process_resume_def Let_def)
  next
    case (Inr u)
    with t d c1 c2 show ?thesis by (simp add: process_resume_def Let_def)
  qed
qed

text \<open>
  C9. With no credential, neither passed to the constructor nor configured, the
  construction of the parser fails with \<open>MissingCredential\<close>; a parser that was
  constructed holds a non-empty credential, the one its model client uses. Processing
  a record under a configuration without credential ends in failure with the record
  marked failed, no file read and no call made to the model service.
\<close>

theorem missing_credential_fails_fast:
  "((api_key_arg = None \<or> api_key_arg = Some [])
      \<and> (GROQ_API_KEY env = None \<or> GROQ_API_KEY env = Some []) \<longrightarrow>
        ResumeParser_init env api_key_arg = Inl MissingCredential)
   \<and> (ResumeParser_init env api_key_arg = Inr p \<longrightarrow>
        api_key p \<noteq> [] \<and> llm_api_key (llm p) = api_key p)
   \<and> (GROQ_API_KEY env = None \<or> GROQ_API_KEY env = Some [] \<longrightarrow>
        (\<exists>e pr' w'. process_resume env parsed_resume w = (Inl e, pr', w')
           \<and> pr_status pr' = Failed
           \<and> file_reads w' = file_reads w \<and> model_calls w' = model_calls w))"
proof (intro conjI impI)
  assume "(api_key_arg = None \<or> api_key_arg = Some [])
      \<and> (GROQ_API_KEY env = None \<or> GROQ_API_KEY env = Some [])"
  then show "ResumeParser_init env api_key_arg = Inl MissingCredential"
    using ResumeParser_init_missing by blast
next
  assume "ResumeParser_init env api_key_arg = Inr p"
  from ResumeParser_init_Inr[OF this] show "api_key p \<noteq> []" by blast
next
  assume "ResumeParser_init env api_key_arg = Inr p"
  from ResumeParser_init_Inr[OF this] show "llm_api_key (llm p) = api_key p" by blast
next
  assume "GROQ_API_KEY env = None \<or> GROQ_API_KEY env = Some []"
  then have "ResumeParser_init env None = Inl MissingCredential"
    using ResumeParser_init_missing by blast
  from process_resume_no_credential[OF this]
  show "\<exists>e pr' w'. process_resume env parsed_resume w = (Inl e, pr', w')
           \<and> pr_status pr' = Failed
           \<and> file_reads w' = file_reads w \<and> model_calls w' = model_calls w" .
qed

theorem missing_credential_fails_fast_witness:
  "GROQ_API_KEY env_nokey = None
   \<and> ResumeParser_init env_nokey None = Inl MissingCredential
   \<and> ResumeParser_init env_skills None = Inr parser0
   \<and> api_key parser0 \<noteq> []
   \<and> fst (process_resume env_nokey resume_pending world_uploaded) = Inl MissingCredential
   \<and> (\<exists>e pr' w'. process_resume env_nokey resume_pending world_uploaded = (Inl e, pr', w')
         \<and> pr_status pr' = Failed
         \<and> file_reads w' = file_reads world_uploaded \<and> model_calls w' = model_calls world_uploaded)"
proof -
  have k: "GROQ_API_KEY env_nokey = None" by code_simp
  have i: "ResumeParser_init env_skills None = Inr parser0" by code_simp
  have f: "fst (process_resume env_nokey resume_pending world_uploaded) = Inl MissingCredential"
    by code_simp
  note t1 = missing_credential_fails_fast[of None env_nokey parser0 resume_pending world_uploaded]
  note t2 = missing_credential_fails_fast[of None env_skills parser0 resume_pending world_uploaded]
  from t1 k have a: "ResumeParser_init env_nokey None = Inl MissingCredential" by blast
  from t2 i have b: "api_key parser0 \<noteq> []" by blast
  from t1 k have c: "\<exists>e pr' w'. process_resume env_nokey resume_pending world_uploaded = (Inl e, pr', w')
         \<and> pr_status pr' = Failed
         \<and> file_reads w' = file_reads world_uploaded \<and> model_calls w' = model_calls world_uploaded"
    by blast
  show ?thesis using k a i b f c by blast
qed

section \<open>The resume record lifecycle at two inputs\<close>

text \<open>
  C2, evaluated. The parse succeeds and the record is saved as completed; the database
  then refuses the profile-completion write; the handler of \<open>_process_resume\<close> saves the
  same record as failed. The statuses saved for the record are processing, completed,
  failed, and the failed record keeps the parsed skills.
\<close>

theorem process_resume_completed_then_failed:
  "pr_status resume_pending = Pending
   \<and> fst (process_resume env_locked resume_pending world_uploaded)
       = Inl (DatabaseError ''database is locked'')
   \<and> saved_statuses 1 (snd (snd (process_resume env_locked resume_pending world_uploaded)))
       = [Processing, Completed, Failed]
   \<and> pr_status (fst (snd (process_resume env_locked resume_pending world_uploaded))) = Failed
   \<and> pr_error_message (fst (snd (process_resume env_locked resume_pending world_uploaded)))
       = Some ''database is locked''
   \<and> pr_skills (fst (snd (process_resume env_locked resume_pending world_uploaded)))
       = [''Python'', ''python'', ''SQL'']"
  by code_simp

text \<open>
  C4, evaluated. The response says nothing of the years of experience; the parsed
  dictionary holds the key with the value \<open>None\<close>, so the default of \<open>get\<close> is not used,
  and the completed record stores \<open>None\<close> as its experience years.
\<close>

theorem process_resume_experience_years_null:
  "fst (process_resume env_skills resume_pending world_uploaded) = Inr ()
   \<and> pr_status (fst (snd (process_resume env_skills resume_pending world_uploaded))) = Completed
   \<and> field (pr_parsed_data (fst (snd (process_resume env_skills resume_pending world_uploaded))))
        ''total_experience_years'' = Some JNull
   \<and> pr_experience_years (fst (snd (process_resume env_skills resume_pending world_uploaded))) = None"
  by code_simp

section \<open>Applying for a job\<close>

lemma foldr_max_ge: "x \<in> set xs \<Longrightarrow> x \<le> foldr max xs (0::nat)"
  by (induction xs) auto

lemma fresh_id_fresh: "fresh_id key rows \<notin> set (map key rows)"
proof
  assume "fresh_id key rows \<in> set (map key rows)"
  then have "fresh_id key rows \<le> foldr max (map key rows) 0" by (rule foldr_max_ge)
  then show False by (simp add: fresh_id_def)
qed

lemma put_row_fresh: "key x \<notin> set (map key rows) \<Longrightarrow> put_row key x rows = x # rows"
  by (simp add: put_row_def)

lemma put_row_head:
  assumes "key y = key x" and "key x \<notin> set (map key rows)"
  shows "put_row key y (x # rows) = y # rows"
proof -
  have "map (\<lambda>r. if key r = key x then y else r) rows = rows"
    using assms(2) by (induction rows) auto
  with assms(1) show ?thesis by (simp add: put_row_def)
qed

lemma application_rows_WApplication:
  "application_rows (apply_write (WApplication a) w) = put_row ja_id a (application_rows w)"
  by (simp add: apply_write_def Let_def)

lemma application_rows_WJob:
  "application_rows (apply_write (WJob j) w) = application_rows w"
  by (simp add: apply_write_def Let_def)

lemma set_and_set: "set (set_and a b) = set a \<inter> set b \<and> distinct (set_and a b)"
  by (auto simp: set_and_def)

lemma set_minus_set: "set (set_minus a b) = set a - set b \<and> distinct (set_minus a b)"
  by (auto simp: set_minus_def)

lemma length_set_and: "length (set_and a b) = card (set a \<inter> set b)"
  using set_and_set[of a b] by (metis distinct_card)

lemma round2_zero: "round2 0 = 0"
  by (simp add: round2_def round_half_even_def binary64_def)

text \<open>The three values of the match block, in the terms of the claim.\<close>

lemma match_data_eq:
  "match_data skills required =
     (if required = [] then 0
      else round2 (float_mul (float_div (card (set skills \<inter> set required)) (length required)) 100),
      set_and skills required, set_minus required skills)"
  by (simp add: match_data_def Let_def length_set_and round2_zero)

lemma store_match_rows:
  assumes s: "store_match env a resume job w1 = (Inr u, w2)"
    and a: "ja_match_score a = None" "ja_matching_skills a = []" "ja_missing_skills a = []"
    and h: "application_rows w1 = a # rows" "ja_id a \<notin> set (map ja_id rows)"
  shows "\<exists>a'. application_rows w2 = a' # rows \<and> ja_job a' = ja_job a
              \<and> ja_applicant a' = ja_applicant a \<and> ja_resume a' = ja_resume a
              \<and> (ja_match_score a', ja_matching_skills a', ja_missing_skills a')
                  = stored_match resume job"
proof (cases resume)
  case None
  with s have "w2 = w1" by (simp add: store_match_def)
  with None a h show ?thesis by (simp add: stored_match_def)
next
  case (Some r)
  show ?thesis
  proof (cases "pr_skills r = []")
    case True
    with Some s have "w2 = w1" by (simp add: store_match_def)
    with Some True a h show ?thesis by (simp add: stored_match_def)
  next
    case False
    let ?md = "match_data (pr_skills r) (j_required_skills job)"
    let ?a' = "a\<lparr> ja_match_score := Some (fst ?md), ja_matching_skills := fst (snd ?md),
                    ja_missing_skills := snd (snd ?md) \<rparr>"
    from Some False s have "db_write env (WApplication ?a') w1 = (Inr u, w2)"
      by (simp add: store_match_def split_beta)
    then have "w2 = apply_write (WApplication ?a') w1" by (rule db_write_Inr)
    then have "application_rows w2 = put_row ja_id ?a' (a # rows)"
      by (simp add: application_rows_WApplication h(1))
    also have "\<dots> = ?a' # rows"
      by (rule put_row_head) (use h(2) in simp_all)
    finally have "application_rows w2 = ?a' # rows" .
    with Some False show ?thesis by (simp add: stored_match_def)
  qed
qed

lemma submit_application_stored:
  assumes ok: "submit_application env request job resume w = (Inr resp, w')"
  shows "\<exists>a. application_of (j_id job) (user_id (req_user request)) w' = Some a
           \<and> ja_resume a = map_option pr_id resume
           \<and> (ja_match_score a, ja_matching_skills a, ja_missing_skills a)
               = stored_match resume job"
proof -
  let ?a = "\<lparr> ja_id = fresh_id ja_id (application_rows w), ja_job = j_id job,
              ja_applicant = user_id (req_user request),
              ja_resume = map_option pr_id resume,
              ja_cover_letter = (case req_cover_letter request of None \<Rightarrow> [] | Some c \<Rightarrow> c),
              ja_status = ''pending'',
              ja_match_score = None, ja_matching_skills = [],
              ja_missing_skills = [] \<rparr>"
  let ?j = "job\<lparr> j_applications_count := j_applications_count job + 1 \<rparr>"
  obtain r1 w1 where d1: "db_write env (WApplication ?a) w = (r1, w1)"
    by (cases "db_write env (WApplication ?a) w")
  obtain r2 w2 where d2: "store_match env ?a resume job w1 = (r2, w2)"
    by (cases "store_match env ?a resume job w1")
  obtain r3 w3 where d3: "db_write env (WJob ?j) w2 = (r3, w3)"
    by (cases "db_write env (WJob ?j) w2")
  from ok d1 obtain u1 where r1: "r1 = Inr u1"
    by (cases r1) (simp_all add: submit_application_def Let_def)
  from ok d1 d2 r1 obtain u2 where r2: "r2 = Inr u2"
    by (cases r2) (simp_all add: submit_application_def Let_def)
  from ok d1 d2 d3 r1 r2 obtain u3 where r3: "r3 = Inr u3"
    by (cases r3) (simp_all add: submit_application_def Let_def)
  from ok d1 d2 d3 r1 r2 r3 have w': "w' = w3"
    by (simp add: submit_application_def Let_def)
  from d1 r1 have "w1 = apply_write (WApplication ?a) w" by (simp add: db_write_Inr)
  then have rows1: "application_rows w1 = ?a # application_rows w"
    using fresh_id_fresh[of ja_id "application_rows w"]
    by (simp add: application_rows_WApplication put_row_def)
  have fr: "ja_id ?a \<notin> set (map ja_id (application_rows w))"
    using fresh_id_fresh[of ja_id "application_rows w"] by simp
  from d2 r2 have s: "store_match env ?a resume job w1 = (Inr u2, w2)" by simp
  from store_match_rows[OF s _ _ _ rows1 fr] obtain a' where
    rows2: "application_rows w2 = a' # application_rows w"
    and f: "ja_job a' = ja_job ?a" "ja_applicant a' = ja_applicant ?a" "ja_resume a' = ja_resume ?a"
    and m: "(ja_match_score a', ja_matching_skills a', ja_missing_skills a') = stored_match resume job"
    by auto
  from d3 r3 have "w3 = apply_write (WJob ?j) w2" by (simp add: db_write_Inr)
  then have "application_rows w3 = a' # application_rows w"
    by (simp add: application_rows_WJob rows2)
  with w' f have "application_of (j_id job) (user_id (req_user request)) w' = Some a'"
    by (simp add: application_of_def)
  with f m show ?thesis by simp
qed

lemma apply_job_stored:
  assumes ok: "apply_job env request slug w = (Inr (Redirect ''resumes:my_applications'' ''success''), w')"
    and job: "find (\<lambda>j. j_slug j = slug) (job_rows w) = Some job"
    and rid: "req_resume_id request = Some rid"
    and res: "completed_resume_of rid (req_user request) w = Some r"
  shows "\<exists>a. application_of (j_id job) (user_id (req_user request)) w' = Some a
           \<and> ja_resume a = Some (pr_id r)
           \<and> (ja_match_score a, ja_matching_skills a, ja_missing_skills a)
               = stored_match (Some r) job"
proof -
  from ok job rid res have
    "submit_application env request job (Some r) w
       = (Inr (Redirect ''resumes:my_applications'' ''success''), w')"
    by (simp add: apply_job_def split: if_splits)
  from submit_application_stored[OF this] show ?thesis by simp
qed

text \<open>
  C10. Where an application has gone through with a completed resume selected, the
  row it leaves for the job and the applicant refers to that resume; if the resume's
  skill list is empty the row has no match score and empty lists of matching and of
  missing skills, whatever skills the job requires; and a row with a match score comes
  from a resume with a non-empty skill list only.
\<close>

theorem apply_job_without_skills:
  assumes "apply_job env request slug w = (Inr (Redirect ''resumes:my_applications'' ''success''), w')"
    and "find (\<lambda>j. j_slug j = slug) (job_rows w) = Some job"
    and "req_resume_id request = Some rid"
    and "completed_resume_of rid (req_user request) w = Some r"
  shows "\<exists>a. application_of (j_id job) (user_id (req_user request)) w' = Some a
           \<and> ja_resume a = Some (pr_id r)
           \<and> (pr_skills r = [] \<longrightarrow>
                 ja_match_score a = None \<and> ja_matching_skills a = [] \<and> ja_missing_skills a = [])
           \<and> (ja_match_score a \<noteq> None \<longrightarrow> pr_skills r \<noteq> [])"
proof -
  from apply_job_stored[OF assms] obtain a where
    a: "application_of (j_id job) (user_id (req_user request)) w' = Some a"
    and r: "ja_resume a = Some (pr_id r)"
    and m: "(ja_match_score a, ja_matching_skills a, ja_missing_skills a) = stored_match (Some r) job"
    by blast
  from m have "pr_skills r = [] \<longrightarrow>
                 ja_match_score a = None \<and> ja_matching_skills a = [] \<and> ja_missing_skills a = []"
    by (auto simp add: stored_match_def split: if_splits)
  with a r show ?thesis by auto
qed

theorem apply_job_without_skills_witness:
  "apply_job env_skills request_apply ''backend-engineer-acme'' world_jobs_noskills
     = (Inr (Redirect ''resumes:my_applications'' ''success''),
        snd (apply_job env_skills request_apply ''backend-engineer-acme'' world_jobs_noskills))
   \<and> find (\<lambda>j. j_slug j = ''backend-engineer-acme'') (job_rows world_jobs_noskills) = Some job_backend
   \<and> req_resume_id request_apply = Some 1
   \<and> completed_resume_of 1 (req_user request_apply) world_jobs_noskills = Some resume_noskills
   \<and> pr_skills resume_noskills = []
   \<and> j_required_skills job_backend \<noteq> []
   \<and> (\<exists>a. application_of (j_id job_backend) (user_id (req_user request_apply))
              (snd (apply_job env_skills request_apply ''backend-engineer-acme'' world_jobs_noskills))
            = Some a
          \<and> ja_match_score a = None \<and> ja_matching_skills a = [] \<and> ja_missing_skills a = [])"
proof -
  have f: "fst (apply_job env_skills request_apply ''backend-engineer-acme'' world_jobs_noskills)
             = Inr (Redirect ''resumes:my_applications'' ''success'')" by code_simp
  have h1: "apply_job env_skills request_apply ''backend-engineer-acme'' world_jobs_noskills
     = (Inr (Redirect ''resumes:my_applications'' ''success''),
        snd (apply_job env_skills request_apply ''backend-engineer-acme'' world_jobs_noskills))"
    using f by (metis prod.collapse)
  have h2: "find (\<lambda>j. j_slug j = ''backend-engineer-acme'') (job_rows world_jobs_noskills)
              = Some job_backend" by code_simp
  have h3: "req_resume_id request_apply = Some 1" by code_simp
  have h4: "completed_resume_of 1 (req_user request_apply) world_jobs_noskills = Some resume_noskills"
    by code_simp
  have s: "pr_skills resume_noskills = []" by code_simp
  have q: "j_required_skills job_backend \<noteq> []" by code_simp
  from apply_job_without_skills[OF h1 h2 h3 h4] s
  have "\<exists>a. application_of (j_id job_backend) (user_id (req_user request_apply))
              (snd (apply_job env_skills request_apply ''backend-engineer-acme'' world_jobs_noskills))
            = Some a
          \<and> ja_match_score a = None \<and> ja_matching_skills a = [] \<and> ja_missing_skills a = []"
    by blast
  with h1 h2 h3 h4 s q show ?thesis by blast
qed

text \<open>
  C5 (as amended). Where an application has gone through with a completed resume
  selected whose skill list is not empty, the row it leaves holds: as matching skills,
  without repetition, the skills that the resume and the job's required list have in
  common; as missing skills, without repetition, the required skills that are not
  among the matching ones; and as match score 0 when the required list is empty, and
  otherwise the result of Python's \<open>round(x, 2)\<close> on the float
  \<open>x = (|matching| / len(required)) * 100\<close>, where \<open>len(required)\<close> counts the entries of
  the required list.
\<close>

theorem apply_job_match_data:
  assumes "apply_job env request slug w = (Inr (Redirect ''resumes:my_applications'' ''success''), w')"
    and "find (\<lambda>j. j_slug j = slug) (job_rows w) = Some job"
    and "req_resume_id request = Some rid"
    and "completed_resume_of rid (req_user request) w = Some r"
    and "pr_skills r \<noteq> []"
  shows "\<exists>a. application_of (j_id job) (user_id (req_user request)) w' = Some a
           \<and> set (ja_matching_skills a) = set (pr_skills r) \<inter> set (j_required_skills job)
           \<and> distinct (ja_matching_skills a)
           \<and> set (ja_missing_skills a) = set (j_required_skills job) - set (ja_matching_skills a)
           \<and> distinct (ja_missing_skills a)
           \<and> ja_match_score a =
               Some (if j_required_skills job = [] then 0
                     else round2 (float_mul
                            (float_div (card (set (ja_matching_skills a)))
                                       (length (j_required_skills job))) 100))"
proof -
  from apply_job_stored[OF assms(1-4)] obtain a where
    a: "application_of (j_id job) (user_id (req_user request)) w' = Some a"
    and m: "(ja_match_score a, ja_matching_skills a, ja_missing_skills a) = stored_match (Some r) job"
    by blast
  from m assms(5) have s: "ja_match_score a =
        Some (if j_required_skills job = [] then 0
              else round2 (float_mul
                     (float_div (card (set (pr_skills r) \<inter> set (j_required_skills job)))
                                (length (j_required_skills job))) 100))"
    and ma: "ja_matching_skills a = set_and (pr_skills r) (j_required_skills job)"
    and mi: "ja_missing_skills a = set_minus (j_required_skills job) (pr_skills r)"
    by (simp_all add: stored_match_def match_data_eq)
  have 1: "set (ja_matching_skills a) = set (pr_skills r) \<inter> set (j_required_skills job)"
    and 2: "distinct (ja_matching_skills a)"
    using set_and_set[of "pr_skills r" "j_required_skills job"] by (simp_all add: ma)
  have 3: "set (ja_missing_skills a) = set (j_required_skills job) - set (ja_matching_skills a)"
    using set_minus_set[of "j_required_skills job" "pr_skills r"] 1 by (auto simp add: mi)
  have 4: "distinct (ja_missing_skills a)"
    using set_minus_set[of "j_required_skills job" "pr_skills r"] by (simp add: mi)
  from s 1 have 5: "ja_match_score a =
               Some (if j_required_skills job = [] then 0
                     else round2 (float_mul
                            (float_div (card (set (ja_matching_skills a)))
                                       (length (j_required_skills job))) 100))"
    by simp
  show ?thesis using a 1 2 3 4 5 by blast
qed

theorem apply_job_match_data_witness:
  "apply_job env_skills request_apply ''backend-engineer-acme'' world_jobs
     = (Inr (Redirect ''resumes:my_applications'' ''success''),
        snd (apply_job env_skills request_apply ''backend-engineer-acme'' world_jobs))
   \<and> pr_skills resume_done = [''Python'', ''SQL'', ''Go'']
   \<and> j_required_skills job_backend = [''Python'', ''Go'', ''Rust'']
   \<and> (\<exists>a. application_of (j_id job_backend) (user_id (req_user request_apply))
              (snd (apply_job env_skills request_apply ''backend-engineer-acme'' world_jobs))
            = Some a
          \<and> set (ja_matching_skills a) = {''Python'', ''Go''}
          \<and> set (ja_missing_skills a) = {''Rust''}
          \<and> ja_match_score a = Some (binary64 (6667 / 100)))"
proof -
  have f: "fst (apply_job env_skills request_apply ''backend-engineer-acme'' world_jobs)
             = Inr (Redirect ''resumes:my_applications'' ''success'')" by code_simp
  have h1: "apply_job env_skills request_apply ''backend-engineer-acme'' world_jobs
     = (Inr (Redirect ''resumes:my_applications'' ''success''),
        snd (apply_job env_skills request_apply ''backend-engineer-acme'' world_jobs))"
    using f by (metis prod.collapse)
  have h2: "find (\<lambda>j. j_slug j = ''backend-engineer-acme'') (job_rows world_jobs)
              = Some job_backend" by code_simp
  have h3: "req_resume_id request_apply = Some 1" by code_simp
  have h4: "completed_resume_of 1 (req_user request_apply) world_jobs = Some resume_done"
    by code_simp
  have s: "pr_skills resume_done = [''Python'', ''SQL'', ''Go'']" by code_simp
  have q: "j_required_skills job_backend = [''Python'', ''Go'', ''Rust'']" by code_simp
  have h5: "pr_skills resume_done \<noteq> []" by (simp add: s)
  have i: "set [''Python'', ''SQL'', ''Go''] \<inter> set [''Python'', ''Go'', ''Rust'']
             = {''Python'', ''Go''}" by auto
  have v: "round2 (float_mul (float_div 2 (Suc (Suc (Suc 0)))) 100) = binary64 (6667 / 100)"
    by code_simp
  from apply_job_match_data[OF h1 h2 h3 h4 h5] obtain a where
    a: "application_of (j_id job_backend) (user_id (req_user request_apply))
              (snd (apply_job env_skills request_apply ''backend-engineer-acme'' world_jobs))
            = Some a"
    and 1: "set (ja_matching_skills a) = set (pr_skills resume_done) \<inter> set (j_required_skills job_backend)"
    and 3: "set (ja_missing_skills a) = set (j_required_skills job_backend) - set (ja_matching_skills a)"
    and 5: "ja_match_score a =
               Some (if j_required_skills job_backend = [] then 0
                     else round2 (float_mul
                            (float_div (card (set (ja_matching_skills a)))
                                       (length (j_required_skills job_backend))) 100))"
    by blast
  from 1 have m: "set (ja_matching_skills a) = {''Python'', ''Go''}" by (simp only: s q i)
  from 3 m have n: "set (ja_missing_skills a) = {''Rust''}" by (auto simp add: q)
  have c: "card {''Python'', ''Go''} = 2" by simp
  from 5 have sc: "ja_match_score a = Some (binary64 (6667 / 100))"
    by (simp add: m q c v)
  show ?thesis using h1 s q a m n sc by blast
qed

theorem apply_job_match_data_counterexample:
  "fst (apply_job env_skills request_apply ''backend-engineer-acme'' world_jobs_noskills)
     = Inr (Redirect ''resumes:my_applications'' ''success'')
   \<and> j_required_skills job_backend = [''Python'', ''Go'', ''Rust'']
   \<and> map_option pr_skills (completed_resume_of 1 (req_user request_apply) world_jobs_noskills)
       = Some []
   \<and> map_option ja_match_score
        (application_of 7 1
           (snd (apply_job env_skills request_apply ''backend-engineer-acme'' world_jobs_noskills)))
       = Some None
   \<and> map_option ja_missing_skills
        (application_of 7 1
           (snd (apply_job env_skills request_apply ''backend-engineer-acme'' world_jobs_noskills)))
       = Some []"
  by code_simp

end
